theory Spec2Isabelle
  imports Complex_Main "HOL-Library.Word" "HOL-Library.Sublist"
begin

section \<open>Numbers and points\<close>

text \<open>
  JavaScript numbers are modelled as real numbers: the arithmetic of the placement code
  (the normaliser, the hover scale, the auto positions) is read without rounding. A
  division by zero, which JavaScript answers with Infinity or NaN, is either written out
  in the model or kept outside the statements: a theorem whose result passes through a
  division states the divisor positive. The shape parser, where a missing attribute
  becomes NaN, carries NaN explicitly (type \<open>jsnum\<close> further down).

  In two places the rounding of double arithmetic decides which points a function
  returns: the loop counters of the raster scan, which add the step again and again,
  and the distance test of \<open>removeOverlapping\<close>. There the arithmetic operations are
  parameters of the model: a record \<open>floatOps\<close> of the four operations on doubles, each
  a function on the real numbers that the doubles stand for. What is proved of these
  functions is proved for every such record, so for the operations of IEEE arithmetic.

  A point \<open>{x, y}\<close> is the record \<open>point2\<close>, a point \<open>{x, y, z}\<close> the record
  \<open>point3\<close>; the fields carry a prefix because \<open>x\<close>, \<open>y\<close> and \<open>z\<close> are wanted as
  variable names.
\<close>

record point2 =
  pt_x :: real
  pt_y :: real

record point3 =
  p3_x :: real
  p3_y :: real
  p3_z :: real

record floatOps =
  fl_add :: "real \<Rightarrow> real \<Rightarrow> real"
  fl_sub :: "real \<Rightarrow> real \<Rightarrow> real"
  fl_mul :: "real \<Rightarrow> real \<Rightarrow> real"
  fl_div :: "real \<Rightarrow> real \<Rightarrow> real"

text \<open>
  The operations without rounding. The examples below run on them, with numbers that
  doubles represent and compute exactly (integers, halves and quarters of small size).
\<close>

definition exactOps :: floatOps where
  "exactOps = \<lparr>fl_add = (+), fl_sub = (-), fl_mul = (*), fl_div = (/)\<rparr>"


text \<open>
  A loop counter that starts at 0 and is increased by \<open>step\<close> until it reaches \<open>bound\<close>
  advances when each addition, below the bound, increases it by at least some fixed
  positive amount. Double addition does so for a positive step that is not tiny against
  the bound (for the step 1.1 below 800 the amount 1 will do); it does not for a step so
  small that \<open>x + step\<close> rounds back to \<open>x\<close>.
\<close>

definition advances :: "floatOps \<Rightarrow> real \<Rightarrow> real \<Rightarrow> bool" where
  "advances ops step bound \<longleftrightarrow>
     (\<exists>d > 0. \<forall>x. 0 \<le> x \<and> x < bound \<longrightarrow> x + d \<le> fl_add ops x step)"

section \<open>SVGCoordinateNormalizer (js/svg/SVGPointSampler.js)\<close>

text \<open>\<open>svgViewBox = {minX, minY, width, height}\<close> and \<open>canvasSize = {width, height}\<close>.\<close>

record viewBox =
  vb_minX :: real
  vb_minY :: real
  vb_width :: real
  vb_height :: real

record canvasSize =
  cs_width :: real
  cs_height :: real

text \<open>
  The \<open>options\<close> object of \<open>normalize\<close>. A field that is absent (\<open>undefined\<close>) is
  \<open>None\<close>; the destructuring pattern of the source then supplies the default.
\<close>

record normalizeOptions =
  opt_fitMode :: "string option"
  opt_padding :: "real option"
  opt_offsetX :: "real option"
  opt_offsetY :: "real option"

definition fitModeOf :: "normalizeOptions \<Rightarrow> string" where
  "fitModeOf options = (case opt_fitMode options of None \<Rightarrow> ''contain'' | Some m \<Rightarrow> m)"

definition paddingOf :: "normalizeOptions \<Rightarrow> real" where
  "paddingOf options = (case opt_padding options of None \<Rightarrow> 0.1 | Some p \<Rightarrow> p)"

definition offsetXOf :: "normalizeOptions \<Rightarrow> real" where
  "offsetXOf options = (case opt_offsetX options of None \<Rightarrow> 0 | Some v \<Rightarrow> v)"

definition offsetYOf :: "normalizeOptions \<Rightarrow> real" where
  "offsetYOf options = (case opt_offsetY options of None \<Rightarrow> 0 | Some v \<Rightarrow> v)"

text \<open>The effective canvas area (with padding), lines 372-373.\<close>

definition effectiveWidth :: "canvasSize \<Rightarrow> normalizeOptions \<Rightarrow> real" where
  "effectiveWidth canvasSize options = cs_width canvasSize * (1 - paddingOf options * 2)"

definition effectiveHeight :: "canvasSize \<Rightarrow> normalizeOptions \<Rightarrow> real" where
  "effectiveHeight canvasSize options = cs_height canvasSize * (1 - paddingOf options * 2)"

text \<open>The \<open>switch (fitMode)\<close> of lines 377-398: the pair \<open>(scaleX, scaleY)\<close>.\<close>

definition fitScale :: "viewBox \<Rightarrow> canvasSize \<Rightarrow> normalizeOptions \<Rightarrow> real \<times> real" where
  "fitScale svgViewBox canvasSize options =
     (let effW = effectiveWidth canvasSize options;
          effH = effectiveHeight canvasSize options;
          fitMode = fitModeOf options
      in if fitMode = ''contain'' then
           (let containScale = min (effW / vb_width svgViewBox) (effH / vb_height svgViewBox)
            in (containScale, containScale))
         else if fitMode = ''cover'' then
           (let coverScale = max (effW / vb_width svgViewBox) (effH / vb_height svgViewBox)
            in (coverScale, coverScale))
         else if fitMode = ''stretch'' then
           (effW / vb_width svgViewBox, effH / vb_height svgViewBox)
         else (1, 1))"

definition svgCenterX :: "viewBox \<Rightarrow> real" where
  "svgCenterX svgViewBox = vb_minX svgViewBox + vb_width svgViewBox / 2"

definition svgCenterY :: "viewBox \<Rightarrow> real" where
  "svgCenterY svgViewBox = vb_minY svgViewBox + vb_height svgViewBox / 2"

definition offsetPxX :: "canvasSize \<Rightarrow> normalizeOptions \<Rightarrow> real" where
  "offsetPxX canvasSize options = (offsetXOf options / 100) * cs_width canvasSize"

definition offsetPxY :: "canvasSize \<Rightarrow> normalizeOptions \<Rightarrow> real" where
  "offsetPxY canvasSize options = (offsetYOf options / 100) * cs_height canvasSize"

text \<open>The body of the \<open>points.map\<close> callback, lines 409-422.\<close>

definition normalizePoint ::
  "viewBox \<Rightarrow> canvasSize \<Rightarrow> normalizeOptions \<Rightarrow> point2 \<Rightarrow> point3" where
  "normalizePoint svgViewBox canvasSize options point =
     (let (scaleX, scaleY) = fitScale svgViewBox canvasSize options;
          x = (pt_x point - svgCenterX svgViewBox) * scaleX;
          y = (pt_y point - svgCenterY svgViewBox) * scaleY;
          y = - y;
          x = x + offsetPxX canvasSize options;
          y = y + offsetPxY canvasSize options
      in \<lparr>p3_x = x, p3_y = y, p3_z = 0\<rparr>)"

definition normalize ::
  "point2 list \<Rightarrow> viewBox \<Rightarrow> canvasSize \<Rightarrow> normalizeOptions \<Rightarrow> point3 list" where
  "normalize points svgViewBox canvasSize options =
     (if length points = 0 then []
      else map (normalizePoint svgViewBox canvasSize options) points)"

text \<open>
  The bounding box of a point cloud and the position of a point relative to the view
  box: the notions the specification uses to speak about \<open>normalize\<close>.
\<close>

definition bboxWidth :: "point3 list \<Rightarrow> real" where
  "bboxWidth ps = Max (set (map p3_x ps)) - Min (set (map p3_x ps))"

definition bboxHeight :: "point3 list \<Rightarrow> real" where
  "bboxHeight ps = Max (set (map p3_y ps)) - Min (set (map p3_y ps))"

definition inViewBox :: "viewBox \<Rightarrow> point2 \<Rightarrow> bool" where
  "inViewBox vb p \<longleftrightarrow>
     vb_minX vb \<le> pt_x p \<and> pt_x p \<le> vb_minX vb + vb_width vb \<and>
     vb_minY vb \<le> pt_y p \<and> pt_y p \<le> vb_minY vb + vb_height vb"

section \<open>SVGPointSampler.removeOverlapping (js/svg/SVGPointSampler.js)\<close>

text \<open>
  The squared distance \<open>dx * dx + dy * dy\<close> of lines 330-332, in the arithmetic \<open>ops\<close>.
\<close>

definition distSq :: "floatOps \<Rightarrow> point2 \<Rightarrow> point2 \<Rightarrow> real" where
  "distSq ops point existing =
     (let dx = fl_sub ops (pt_x point) (pt_x existing);
          dy = fl_sub ops (pt_y point) (pt_y existing)
      in fl_add ops (fl_mul ops dx dx) (fl_mul ops dy dy))"

text \<open>
  The inner loop \<open>for (let existing of result)\<close> with its \<open>break\<close>: the value of
  \<open>tooClose\<close> when the loop is left.
\<close>

fun tooClose :: "floatOps \<Rightarrow> point2 list \<Rightarrow> point2 \<Rightarrow> real \<Rightarrow> bool" where
  "tooClose ops [] point minDistSq = False"
| "tooClose ops (existing # rest) point minDistSq =
     (if distSq ops point existing < minDistSq then True
      else tooClose ops rest point minDistSq)"

text \<open>The \<open>points.forEach\<close> of lines 327-340, with the array \<open>result\<close> it pushes to.\<close>

fun removeLoop :: "floatOps \<Rightarrow> point2 list \<Rightarrow> point2 list \<Rightarrow> real \<Rightarrow> point2 list" where
  "removeLoop ops result [] minDistSq = result"
| "removeLoop ops result (point # rest) minDistSq =
     removeLoop ops
       (if \<not> tooClose ops result point minDistSq then result @ [point] else result)
       rest minDistSq"

definition removeOverlapping :: "floatOps \<Rightarrow> point2 list \<Rightarrow> real \<Rightarrow> point2 list" where
  "removeOverlapping ops points minDistance =
     (let minDistSq = fl_mul ops minDistance minDistance
      in removeLoop ops [] points minDistSq)"

text \<open>
  The end of \<open>sampleAllPaths\<close> (lines 312-317), on the points accumulated from the
  outlines and fills of all paths.
\<close>

definition mergeSampled :: "floatOps \<Rightarrow> point2 list \<Rightarrow> real \<Rightarrow> bool \<Rightarrow> point2 list" where
  "mergeSampled ops allPoints spacing mergeOverlapping =
     (if mergeOverlapping \<and> length allPoints > 0
      then removeOverlapping ops allPoints (fl_div ops spacing 2) else allPoints)"

section \<open>Scene state (the main script)\<close>

text \<open>
  The fields of the global \<open>textData\<close> that the sampling, hover and auto-motion code
  reads. \<open>mouseX\<close> and \<open>mouseY\<close> are \<open>null\<close> (here \<open>None\<close>) while no cursor is set.
\<close>

record textData =
  fontFamily :: string
  lineHeight :: real
  textOffsetX :: real
  textOffsetY :: real
  hoverEffectEnabled :: bool
  hoverRadius :: real
  hoverIntensity :: real
  mouseX :: "real option"
  mouseY :: "real option"
  autoSpeed :: real
  autoSize :: real

text \<open>The canvas element \<open>chatooly-canvas\<close>: its pixel width and height.\<close>

record canvas =
  cv_width :: nat
  cv_height :: nat

text \<open>
  \<open>vec.project(camera)\<close> belongs to the rendering library. The camera is a parameter of
  the model: the function that sends the scene point \<open>(pointX, pointY, 0)\<close> to the
  \<open>x\<close> and \<open>y\<close> of its normalised device coordinates.
\<close>

type_synonym camera = "real \<Rightarrow> real \<Rightarrow> real \<times> real"

text \<open>
  The camera that \<open>init\<close> creates (lines 99-109): an orthographic camera looking down
  the z axis with \<open>left = -frustumSize * aspect / 2\<close>, \<open>right = frustumSize * aspect / 2\<close>,
  \<open>top = frustumSize / 2\<close> and \<open>bottom = -frustumSize / 2\<close>. An orthographic projection
  sends \<open>x\<close> to \<open>(2 * x - (right + left)) / (right - left)\<close> and \<open>y\<close> likewise.
\<close>

definition initCamera :: "canvas \<Rightarrow> camera" where
  "initCamera cv =
     (let aspect = real (cv_width cv) / real (cv_height cv);
          frustumSize = real (cv_height cv);
          left = - frustumSize * aspect / 2;
          right = frustumSize * aspect / 2;
          top = frustumSize / 2;
          bottom = - frustumSize / 2
      in (\<lambda>x y. ((2 * x - (right + left)) / (right - left),
                   (2 * y - (top + bottom)) / (top - bottom))))"

section \<open>getHoverScale3D\<close>

text \<open>
  Lines 530-540: the point projected to screen coordinates and its distance to the
  cursor \<open>(mouseX, mouseY)\<close>.
\<close>

definition screenDistance :: "camera \<Rightarrow> canvas \<Rightarrow> real \<Rightarrow> real \<Rightarrow> real \<Rightarrow> real \<Rightarrow> real" where
  "screenDistance cam cv mx my pointX pointY =
     (let (vx, vy) = cam pointX pointY;
          screenX = (vx + 1) / 2 * real (cv_width cv);
          screenY = (- vy + 1) / 2 * real (cv_height cv);
          dx = screenX - mx;
          dy = screenY - my
      in sqrt (dx * dx + dy * dy))"

text \<open>Lines 542-558: the scale as a function of that distance.\<close>

definition scaleAtDistance :: "textData \<Rightarrow> real \<Rightarrow> real" where
  "scaleAtDistance td distance =
     (if distance \<ge> hoverRadius td then 1.0
      else
        (let normalizedDistance = distance / hoverRadius td;
             scale =
               (if hoverIntensity td \<ge> 1.0
                then 1.0 + (hoverIntensity td - 1.0) * (1 - normalizedDistance)
                else
                  (let shrinkAmount = \<bar>hoverIntensity td\<bar>;
                       minScale = max 0.1 (1.0 / (shrinkAmount + 1))
                   in 1.0 - (1.0 - minScale) * (1 - normalizedDistance)))
         in max 0.1 scale))"

definition getHoverScale3D :: "camera \<Rightarrow> canvas \<Rightarrow> textData \<Rightarrow> real \<Rightarrow> real \<Rightarrow> real" where
  "getHoverScale3D cam cv td pointX pointY =
     (if \<not> hoverEffectEnabled td then 1.0
      else case mouseX td of
        None \<Rightarrow> 1.0
      | Some mx \<Rightarrow>
          (case mouseY td of
             None \<Rightarrow> 1.0
           | Some my \<Rightarrow> scaleAtDistance td (screenDistance cam cv mx my pointX pointY)))"

section \<open>getAutoPosition\<close>

text \<open>
  The module-level state of the auto patterns (lines 73-80): \<open>randomTarget\<close>,
  \<open>randomCurrent\<close>, \<open>randomLastTime\<close>, \<open>randomInitialized\<close> and \<open>traceIndex\<close>.
  \<open>Math.random()\<close> is a parameter \<open>rnd\<close> of the model: \<open>rnd i\<close> is the value of its
  \<open>i\<close>-th call, and \<open>randomCalls\<close> counts the calls made so far.
\<close>

record autoState =
  randomTarget :: point2
  randomCurrent :: point2
  randomLastTime :: real
  randomInitialized :: bool
  traceIndex :: nat
  randomCalls :: nat

text \<open>
  The two assignments to \<open>randomTarget.x\<close> and \<open>randomTarget.y\<close> (lines 601-602 and
  608-609): two calls of \<open>Math.random()\<close>, the first for \<open>x\<close>.
\<close>

definition rollTarget ::
  "(nat \<Rightarrow> real) \<Rightarrow> real \<Rightarrow> real \<Rightarrow> real \<Rightarrow> real \<Rightarrow> autoState \<Rightarrow> autoState" where
  "rollTarget rnd centerX centerY rangeX rangeY st =
     st\<lparr>randomTarget :=
           \<lparr>pt_x = centerX + (rnd (randomCalls st) * 2 - 1) * rangeX,
            pt_y = centerY + (rnd (randomCalls st + 1) * 2 - 1) * rangeY\<rparr>,
        randomCalls := randomCalls st + 2\<rparr>"

text \<open>
  The \<open>case 'random'\<close> of lines 594-621. \<open>3000 / textData.autoSpeed\<close> is Infinity when
  \<open>autoSpeed\<close> is 0, and then no time difference exceeds it: the model writes that case
  out, since a real division by zero would give 0.
\<close>

definition randomPattern ::
  "(nat \<Rightarrow> real) \<Rightarrow> canvas \<Rightarrow> textData \<Rightarrow> autoState \<Rightarrow> real \<Rightarrow> point2 \<times> autoState" where
  "randomPattern rnd cv td st time =
     (let centerX = real (cv_width cv) / 2;
          centerY = real (cv_height cv) / 2;
          sizeMultiplier = autoSize td * 0.1;
          rangeX = real (cv_width cv) * 0.4 * sizeMultiplier;
          rangeY = real (cv_height cv) * 0.35 * sizeMultiplier;
          st1 = (if \<not> randomInitialized st
                 then (rollTarget rnd centerX centerY rangeX rangeY
                         (st\<lparr>randomCurrent := \<lparr>pt_x = centerX, pt_y = centerY\<rparr>\<rparr>))
                        \<lparr>randomInitialized := True\<rparr>
                 else st);
          st2 = (if autoSpeed td \<noteq> 0 \<and> time - randomLastTime st1 > 3000 / autoSpeed td
                 then (rollTarget rnd centerX centerY rangeX rangeY st1)\<lparr>randomLastTime := time\<rparr>
                 else st1);
          easeSpeed = 0.02 + (autoSpeed td * 0.008);
          st3 = st2\<lparr>randomCurrent :=
                  \<lparr>pt_x = pt_x (randomCurrent st2)
                            + (pt_x (randomTarget st2) - pt_x (randomCurrent st2)) * easeSpeed,
                   pt_y = pt_y (randomCurrent st2)
                            + (pt_y (randomTarget st2) - pt_y (randomCurrent st2)) * easeSpeed\<rparr>\<rparr>
      in (\<lparr>pt_x = pt_x (randomCurrent st3), pt_y = pt_y (randomCurrent st3)\<rparr>, st3))"

text \<open>
  The \<open>case 'trace'\<close> of lines 623-635. \<open>cachedPoints\<close> is \<open>null\<close> (here \<open>None\<close>) until the
  particle system has been built once.
\<close>

definition tracePattern ::
  "canvas \<Rightarrow> textData \<Rightarrow> point3 list option \<Rightarrow> autoState \<Rightarrow> point2 \<times> autoState" where
  "tracePattern cv td cachedPoints st =
     (let position = \<lparr>pt_x = real (cv_width cv) / 2, pt_y = real (cv_height cv) / 2\<rparr>
      in case cachedPoints of
           None \<Rightarrow> (position, st)
         | Some pts \<Rightarrow>
             if length pts > 0 then
               (let pointsPerFrame = nat (max 1 \<lfloor>autoSpeed td * 2\<rfloor>);
                    st' = st\<lparr>traceIndex := (traceIndex st + pointsPerFrame) mod length pts\<rparr>;
                    point = pts ! traceIndex st'
                in (\<lparr>pt_x = p3_x point + real (cv_width cv) / 2,
                     pt_y = real (cv_height cv) / 2 - p3_y point\<rparr>, st'))
             else (position, st))"

text \<open>
  \<open>getAutoPosition(time, pattern)\<close>, lines 562-639: the position returned and the state
  after the call. A pattern that the \<open>switch\<close> does not name leaves the position at the
  canvas centre.
\<close>

definition getAutoPosition ::
  "(nat \<Rightarrow> real) \<Rightarrow> canvas \<Rightarrow> textData \<Rightarrow> point3 list option \<Rightarrow> autoState \<Rightarrow> real \<Rightarrow> string
     \<Rightarrow> point2 \<times> autoState" where
  "getAutoPosition rnd cv td cachedPoints st time pattern =
     (let centerX = real (cv_width cv) / 2;
          centerY = real (cv_height cv) / 2;
          speed = autoSpeed td * 0.0003;
          t = time * speed;
          sizeMultiplier = autoSize td * 0.1;
          position = \<lparr>pt_x = centerX, pt_y = centerY\<rparr>
      in if pattern = ''sine'' then
           (\<lparr>pt_x = centerX + sin t * (real (cv_width cv) * 0.35 * sizeMultiplier),
             pt_y = centerY + sin (t * 2) * (50 * sizeMultiplier)\<rparr>, st)
         else if pattern = ''infinity'' then
           (\<lparr>pt_x = centerX + sin t * (real (cv_width cv) * 0.3 * sizeMultiplier),
             pt_y = centerY + sin (t * 2) * (real (cv_height cv) * 0.2 * sizeMultiplier)\<rparr>, st)
         else if pattern = ''circle'' then
           (\<lparr>pt_x = centerX + cos t * (real (cv_width cv) * 0.3 * sizeMultiplier),
             pt_y = centerY + sin t * (real (cv_height cv) * 0.25 * sizeMultiplier)\<rparr>, st)
         else if pattern = ''random'' then randomPattern rnd cv td st time
         else if pattern = ''trace'' then tracePattern cv td cachedPoints st
         else (position, st))"

text \<open>The state the script starts with (lines 74-80).\<close>

definition initialAutoState :: autoState where
  "initialAutoState =
     \<lparr>randomTarget = \<lparr>pt_x = 0, pt_y = 0\<rparr>, randomCurrent = \<lparr>pt_x = 0, pt_y = 0\<rparr>,
      randomLastTime = 0, randomInitialized = False, traceIndex = 0, randomCalls = 0\<rparr>"

section \<open>getTextPoints: the raster sampler\<close>

text \<open>
  The pixel data \<open>imageData.data\<close> of the temporary canvas: four bytes (red, green, blue,
  alpha) per pixel, row by row. Its length is \<open>width * height * 4\<close>; the scan reads it
  only at in-range pixels (lemma \<open>alpha_index_in_range\<close> below), so the model is the function
  from an index to the byte there.
\<close>

type_synonym pixels = "nat \<Rightarrow> 8 word"

text \<open>
  Drawing text is the browser's work. The model takes \<open>tempCtx.fillText\<close> as a parameter:
  given the canvas size and the font that were set on the context, the line, the anchor
  \<open>(x, y)\<close> and the pixel data before the call, it returns the pixel data after it.
\<close>

record drawContext =
  ctx_width :: nat
  ctx_height :: nat
  ctx_fontSize :: real
  ctx_fontFamily :: string

type_synonym fillText = "drawContext \<Rightarrow> string \<Rightarrow> real \<Rightarrow> real \<Rightarrow> pixels \<Rightarrow> pixels"

text \<open>\<open>text.split('\n')\<close>: the pieces between line feeds; an empty text gives one empty line.\<close>

fun splitOn :: "char \<Rightarrow> string \<Rightarrow> string \<Rightarrow> string list" where
  "splitOn sep cur [] = [cur]"
| "splitOn sep cur (c # cs) =
     (if c = sep then cur # splitOn sep [] cs else splitOn sep (cur @ [c]) cs)"

definition splitLines :: "string \<Rightarrow> string list" where
  "splitLines text = splitOn (CHR 0x0A) [] text"

text \<open>
  Lines 337-368: the temporary canvas after every line has been drawn, as the pixel data
  that \<open>getImageData\<close> returns. A new canvas is transparent black.
\<close>

definition drawnText :: "fillText \<Rightarrow> canvas \<Rightarrow> textData \<Rightarrow> string \<Rightarrow> real \<Rightarrow> pixels" where
  "drawnText fill cv td text fontSize =
     (let ctx = \<lparr>ctx_width = cv_width cv, ctx_height = cv_height cv,
                 ctx_fontSize = fontSize, ctx_fontFamily = fontFamily td\<rparr>;
          lines = splitLines text;
          lineHeightPixels = fontSize * lineHeight td;
          totalTextHeight = fontSize + (real (length lines) - 1) * lineHeightPixels;
          offsetX = (textOffsetX td / 100) * real (cv_width cv);
          offsetY = (textOffsetY td / 100) * real (cv_height cv);
          startY = (real (cv_height cv) / 2) - (totalTextHeight / 2) + (fontSize / 2) + offsetY;
          centerX = (real (cv_width cv) / 2) + offsetX
      in foldl (\<lambda>buf (line, index).
                  fill ctx line centerX (startY + (real index * lineHeightPixels)) buf)
           (\<lambda>i. 0) (zip lines [0..<length lines]))"

text \<open>Lines 380-381: the alpha byte of the pixel \<open>(px, py)\<close>.\<close>

definition alphaAt :: "pixels \<Rightarrow> nat \<Rightarrow> int \<Rightarrow> int \<Rightarrow> 8 word" where
  "alphaAt data w px py = (let index = (py * int w + px) * 4 in data (nat (index + 3)))"

text \<open>
  The body of the inner loop (lines 376-393) at the loop variables \<open>x\<close> and \<open>y\<close>, on the
  array \<open>points\<close> that it pushes to.
\<close>

definition scanPixel :: "pixels \<Rightarrow> nat \<Rightarrow> nat \<Rightarrow> real \<Rightarrow> real \<Rightarrow> point3 list \<Rightarrow> point3 list" where
  "scanPixel data w h x y points =
     (let px = \<lfloor>x\<rfloor>; py = \<lfloor>y\<rfloor>
      in if px \<ge> 0 \<and> px < int w \<and> py \<ge> 0 \<and> py < int h then
           (let alpha = alphaAt data w px py
            in if alpha > 128
               then points @ [\<lparr>p3_x = real_of_int px - real w / 2,
                                p3_y = real h / 2 - real_of_int py, p3_z = 0\<rparr>]
               else points)
         else points)"

text \<open>
  The two \<open>for\<close> loops of lines 374-395. They add \<open>step\<close> to a counter, in double
  arithmetic, until it reaches the canvas size. That never happens when \<open>step\<close> is zero
  or negative, or so small that the sum rounds back to the counter: the loops are partial
  functions, and \<open>None\<close> stands for a scan that does not return.
\<close>

partial_function (option) scanRow ::
  "floatOps \<Rightarrow> pixels \<Rightarrow> nat \<Rightarrow> nat \<Rightarrow> real \<Rightarrow> real \<Rightarrow> real \<Rightarrow> point3 list
     \<Rightarrow> point3 list option" where
  "scanRow ops data w h step y x points =
     (if x < real w
      then scanRow ops data w h step y (fl_add ops x step) (scanPixel data w h x y points)
      else Some points)"

partial_function (option) scanRows ::
  "floatOps \<Rightarrow> pixels \<Rightarrow> nat \<Rightarrow> nat \<Rightarrow> real \<Rightarrow> real \<Rightarrow> point3 list \<Rightarrow> point3 list option" where
  "scanRows ops data w h step y points =
     (if y < real h
      then Option.bind (scanRow ops data w h step y 0 points)
             (\<lambda>points'. scanRows ops data w h step (fl_add ops y step) points')
      else Some points)"

text \<open>
  \<open>getTextPoints(text, fontSize, spacing)\<close>, lines 332-398. \<open>getImageData\<close> throws an
  \<open>IndexSizeError\<close> for a canvas of width or height zero.
\<close>

datatype domError = IndexSizeError

definition getTextPoints ::
  "floatOps \<Rightarrow> fillText \<Rightarrow> canvas \<Rightarrow> textData \<Rightarrow> string \<Rightarrow> real \<Rightarrow> real
     \<Rightarrow> (domError + point3 list) option" where
  "getTextPoints ops fill cv td text fontSize spacing =
     (let data = drawnText fill cv td text fontSize;
          step = spacing
      in if cv_width cv = 0 \<or> cv_height cv = 0 then Some (Inl IndexSizeError)
         else map_option Inr (scanRows ops data (cv_width cv) (cv_height cv) step 0 []))"

section \<open>The scanned pixels, blank texts and a rasteriser to run on\<close>

text \<open>
  The values that the counter of a loop \<open>for (let x = 0; x < bound; x += step)\<close> takes,
  from the value \<open>x\<close> on; \<open>None\<close> when the loop does not end. The pixels that the scan
  reads are the pixels \<open>(\<lfloor>x\<rfloor>, \<lfloor>y\<rfloor>)\<close> for the values \<open>x\<close> of the inner and \<open>y\<close> of
  the outer loop.
\<close>

partial_function (option) loopValues ::
  "floatOps \<Rightarrow> real \<Rightarrow> real \<Rightarrow> real \<Rightarrow> real list option" where
  "loopValues ops step bound x =
     (if x < bound
      then Option.bind (loopValues ops step bound (fl_add ops x step)) (\<lambda>rest. Some (x # rest))
      else Some [])"

text \<open>
  What the scan pushes over given counter values: for each row value \<open>y\<close>, in order,
  what the loop body pushes at each column value \<open>x\<close>.
\<close>

definition scannedPoints :: "pixels \<Rightarrow> nat \<Rightarrow> nat \<Rightarrow> real list \<Rightarrow> real list \<Rightarrow> point3 list" where
  "scannedPoints data w h xs ys =
     concat (map (\<lambda>y. concat (map (\<lambda>x. scanPixel data w h x y []) xs)) ys)"


text \<open>The scene point that the scan pushes for the pixel \<open>(px, py)\<close> (lines 387-391).\<close>

definition scenePoint :: "nat \<Rightarrow> nat \<Rightarrow> int \<Rightarrow> int \<Rightarrow> point3" where
  "scenePoint w h px py =
     \<lparr>p3_x = real_of_int px - real w / 2, p3_y = real h / 2 - real_of_int py, p3_z = 0\<rparr>"

text \<open>
  Whitespace as \<open>trim\<close> sees it, within ASCII: space, tab, line feed, vertical tab, form
  feed and carriage return. A text is blank when it is empty or holds whitespace only.
\<close>

definition isSpaceChar :: "char \<Rightarrow> bool" where
  "isSpaceChar c \<longleftrightarrow> c \<in> set [CHR '' '', CHR 0x09, CHR 0x0A, CHR 0x0B, CHR 0x0C, CHR 0x0D]"

definition blankText :: "string \<Rightarrow> bool" where
  "blankText s = list_all isSpaceChar s"

text \<open>
  A rasteriser to run the sampler on: it inks one pixel per line that is not blank, the
  pixel at the line's anchor, with the alpha value \<open>a\<close>, and nothing when the anchor lies
  outside the canvas. It stands for a glyph so small that it covers a single pixel.
\<close>

definition stampFill :: "8 word \<Rightarrow> fillText" where
  "stampFill a ctx line x y buf =
     (if blankText line then buf
      else if 0 \<le> \<lfloor>x\<rfloor> \<and> \<lfloor>x\<rfloor> < int (ctx_width ctx) \<and> 0 \<le> \<lfloor>y\<rfloor> \<and> \<lfloor>y\<rfloor> < int (ctx_height ctx)
      then buf(nat ((\<lfloor>y\<rfloor> * int (ctx_width ctx) + \<lfloor>x\<rfloor>) * 4 + 3) := a)
      else buf)"

section \<open>SVGShapeParser (js/svg/SVGPointSampler.js)\<close>

subsection \<open>The document and the JavaScript values the parser handles\<close>

text \<open>
  An element of the parsed document: its tag name, its attributes and its child
  elements. \<open>getAttribute\<close> returns \<open>null\<close> (here \<open>None\<close>) for an attribute that is absent.
\<close>

datatype element =
  Element (tagName: string) (attributes: "(string \<times> string) list") (children: "element list")

definition getAttribute :: "element \<Rightarrow> string \<Rightarrow> string option" where
  "getAttribute el name = map_of (attributes el) name"

text \<open>
  A number of the parser is a real number or NaN. The operators the parser uses on
  numbers: \<open>+\<close> and \<open>-\<close>, which yield NaN as soon as one side is NaN, \<open>a || b\<close>, which is
  \<open>b\<close> when \<open>a\<close> is NaN or 0, and \<open>a === 0\<close>.
\<close>

datatype jsnum = NaN | Num real

fun jsAdd :: "jsnum \<Rightarrow> jsnum \<Rightarrow> jsnum" where
  "jsAdd (Num a) (Num b) = Num (a + b)"
| "jsAdd _ _ = NaN"

fun jsSub :: "jsnum \<Rightarrow> jsnum \<Rightarrow> jsnum" where
  "jsSub (Num a) (Num b) = Num (a - b)"
| "jsSub _ _ = NaN"

fun jsOr :: "jsnum \<Rightarrow> jsnum \<Rightarrow> jsnum" where
  "jsOr NaN b = b"
| "jsOr (Num a) b = (if a = 0 then b else Num a)"

fun isZero :: "jsnum \<Rightarrow> bool" where
  "isZero NaN = False"
| "isZero (Num a) = (a = 0)"

text \<open>
  \<open>parseFloat\<close> on decimal notation: leading whitespace, an optional sign, digits with an
  optional fraction, an optional exponent; what follows the number is ignored, and a
  string that does not start with a number gives NaN. (\<open>Infinity\<close> is not modelled.)
  Applied to \<open>null\<close>, \<open>parseFloat\<close> reads the string \<open>null\<close>.
\<close>

definition digitVal :: "char \<Rightarrow> nat option" where
  "digitVal c =
     map_of [(CHR ''0'', 0), (CHR ''1'', 1), (CHR ''2'', 2), (CHR ''3'', 3), (CHR ''4'', 4),
             (CHR ''5'', 5), (CHR ''6'', 6), (CHR ''7'', 7), (CHR ''8'', 8), (CHR ''9'', 9)] c"

definition isDigit :: "char \<Rightarrow> bool" where
  "isDigit c \<longleftrightarrow> digitVal c \<noteq> None"

definition digitsValue :: "string \<Rightarrow> nat" where
  "digitsValue ds = foldl (\<lambda>acc c. acc * 10 + (case digitVal c of Some d \<Rightarrow> d | None \<Rightarrow> 0)) 0 ds"

definition splitSign :: "string \<Rightarrow> real \<times> string" where
  "splitSign s =
     (case s of
        [] \<Rightarrow> (1, s)
      | c # r \<Rightarrow> if c = CHR ''-'' then (- 1, r) else if c = CHR ''+'' then (1, r) else (1, s))"

definition exponentPart :: "string \<Rightarrow> real \<times> string" where
  "exponentPart s =
     (case s of
        [] \<Rightarrow> (1, s)
      | c # r \<Rightarrow>
          if c = CHR ''e'' \<or> c = CHR ''E'' then
            (let (esign, r') = splitSign r; ds = takeWhile isDigit r'
             in if ds = [] then (1, s)
                else (if esign < 0 then 1 / 10 ^ digitsValue ds else 10 ^ digitsValue ds,
                      dropWhile isDigit r'))
          else (1, s))"

definition decimalPrefix :: "string \<Rightarrow> (real \<times> string) option" where
  "decimalPrefix s =
     (let (sign, s') = splitSign s;
          ip = takeWhile isDigit s';
          r = dropWhile isDigit s';
          (fp, r') = (case r of
                        [] \<Rightarrow> ([], r)
                      | c # t \<Rightarrow> if c = CHR ''.''
                                 then (takeWhile isDigit t, dropWhile isDigit t) else ([], r));
          (factor, rest) = exponentPart r'
      in if ip = [] \<and> fp = [] then None
         else Some (sign * (real (digitsValue ip) + real (digitsValue fp) / 10 ^ length fp)
                      * factor, rest))"

definition parseFloat :: "string \<Rightarrow> jsnum" where
  "parseFloat s =
     (case decimalPrefix (dropWhile isSpaceChar s) of None \<Rightarrow> NaN | Some (v, rest) \<Rightarrow> Num v)"

definition parseFloatAttr :: "string option \<Rightarrow> jsnum" where
  "parseFloatAttr a = (case a of None \<Rightarrow> parseFloat ''null'' | Some s \<Rightarrow> parseFloat s)"

text \<open>
  \<open>Number(s)\<close> on decimal notation: the whole string, whitespace at both ends apart, must
  be a number; the empty string gives 0.
\<close>

definition trim :: "string \<Rightarrow> string" where
  "trim s = rev (dropWhile isSpaceChar (rev (dropWhile isSpaceChar s)))"

definition toNumber :: "string \<Rightarrow> jsnum" where
  "toNumber s =
     (let t = trim s
      in if t = [] then Num 0
         else case decimalPrefix t of
                None \<Rightarrow> NaN
              | Some (v, rest) \<Rightarrow> if rest = [] then Num v else NaN)"

text \<open>
  \<open>s.split(/[\s,]+/)\<close>: the pieces between maximal runs of whitespace and commas. A
  string that starts or ends with such a run has an empty first or last piece.
\<close>

fun splitRuns :: "bool \<Rightarrow> string \<Rightarrow> string \<Rightarrow> string list" where
  "splitRuns inRun cur [] = [cur]"
| "splitRuns inRun cur (c # cs) =
     (if isSpaceChar c \<or> c = CHR '',''
      then (if inRun then splitRuns True cur cs else cur # splitRuns True [] cs)
      else splitRuns False (cur @ [c]) cs)"

definition splitSeparators :: "string \<Rightarrow> string list" where
  "splitSeparators s = splitRuns False [] s"

text \<open>\<open>toLowerCase\<close>, on the letters of ASCII.\<close>

definition toLowerCase :: "string \<Rightarrow> string" where
  "toLowerCase s =
     map (\<lambda>c. case map_of (zip ''ABCDEFGHIJKLMNOPQRSTUVWXYZ'' ''abcdefghijklmnopqrstuvwxyz'') c of
                 None \<Rightarrow> c | Some l \<Rightarrow> l) s"

text \<open>
  A template literal is kept as the list of its pieces: literal text, and the numbers
  interpolated into it. Converted to a string, a number has at least one character, so
  the string is empty (falsy) exactly when there is no number and every text is empty.
\<close>

datatype piece = Lit string | Val jsnum

type_synonym pathData = "piece list"

fun emptyPiece :: "piece \<Rightarrow> bool" where
  "emptyPiece (Lit s) = (s = [])"
| "emptyPiece (Val v) = False"

fun truthy :: "pathData option \<Rightarrow> bool" where
  "truthy None = False"
| "truthy (Some ps) = (\<not> list_all emptyPiece ps)"

text \<open>The interpolation \<open>${a},${b}\<close>, which every shape uses for a coordinate pair.\<close>

definition pair :: "jsnum \<Rightarrow> jsnum \<Rightarrow> pathData" where
  "pair a b = [Val a, Lit '','', Val b]"

subsection \<open>Shapes to paths\<close>

definition rectToPath :: "element \<Rightarrow> pathData option" where
  "rectToPath rect =
     (let x = jsOr (parseFloatAttr (getAttribute rect ''x'')) (Num 0);
          y = jsOr (parseFloatAttr (getAttribute rect ''y'')) (Num 0);
          w = parseFloatAttr (getAttribute rect ''width'');
          h = parseFloatAttr (getAttribute rect ''height'');
          rx = jsOr (parseFloatAttr (getAttribute rect ''rx'')) (Num 0);
          ry = jsOr (parseFloatAttr (getAttribute rect ''ry'')) rx
      in if isZero rx \<and> isZero ry then
           Some ([Lit ''M''] @ pair x y @ [Lit '' L''] @ pair (jsAdd x w) y
                 @ [Lit '' L''] @ pair (jsAdd x w) (jsAdd y h)
                 @ [Lit '' L''] @ pair x (jsAdd y h) @ [Lit '' Z''])
         else
           Some ([Lit ''M''] @ pair (jsAdd x rx) y
                 @ [Lit '' L''] @ pair (jsSub (jsAdd x w) rx) y
                 @ [Lit '' Q''] @ pair (jsAdd x w) y @ [Lit '' ''] @ pair (jsAdd x w) (jsAdd y ry)
                 @ [Lit '' L''] @ pair (jsAdd x w) (jsSub (jsAdd y h) ry)
                 @ [Lit '' Q''] @ pair (jsAdd x w) (jsAdd y h)
                 @ [Lit '' ''] @ pair (jsSub (jsAdd x w) rx) (jsAdd y h)
                 @ [Lit '' L''] @ pair (jsAdd x rx) (jsAdd y h)
                 @ [Lit '' Q''] @ pair x (jsAdd y h) @ [Lit '' ''] @ pair x (jsSub (jsAdd y h) ry)
                 @ [Lit '' L''] @ pair x (jsAdd y ry)
                 @ [Lit '' Q''] @ pair x y @ [Lit '' ''] @ pair (jsAdd x rx) y @ [Lit '' Z'']))"

definition circleToPath :: "element \<Rightarrow> pathData option" where
  "circleToPath circle =
     (let cx = jsOr (parseFloatAttr (getAttribute circle ''cx'')) (Num 0);
          cy = jsOr (parseFloatAttr (getAttribute circle ''cy'')) (Num 0);
          r = parseFloatAttr (getAttribute circle ''r'')
      in Some ([Lit ''M''] @ pair (jsSub cx r) cy
               @ [Lit '' A''] @ pair r r @ [Lit '' 0 1,0 ''] @ pair (jsAdd cx r) cy
               @ [Lit '' A''] @ pair r r @ [Lit '' 0 1,0 ''] @ pair (jsSub cx r) cy))"

definition ellipseToPath :: "element \<Rightarrow> pathData option" where
  "ellipseToPath ellipse =
     (let cx = jsOr (parseFloatAttr (getAttribute ellipse ''cx'')) (Num 0);
          cy = jsOr (parseFloatAttr (getAttribute ellipse ''cy'')) (Num 0);
          rx = parseFloatAttr (getAttribute ellipse ''rx'');
          ry = parseFloatAttr (getAttribute ellipse ''ry'')
      in Some ([Lit ''M''] @ pair (jsSub cx rx) cy
               @ [Lit '' A''] @ pair rx ry @ [Lit '' 0 1,0 ''] @ pair (jsAdd cx rx) cy
               @ [Lit '' A''] @ pair rx ry @ [Lit '' 0 1,0 ''] @ pair (jsSub cx rx) cy))"

text \<open>
  The loop of \<open>polygonToPath\<close> from index 2 on, two entries at a time; a last entry
  without a partner has \<open>points[i + 1] === undefined\<close> and adds nothing.
\<close>

fun polygonSegments :: "string list \<Rightarrow> pathData" where
  "polygonSegments (a # b # rest) = [Lit '' L'', Lit a, Lit '','', Lit b] @ polygonSegments rest"
| "polygonSegments _ = []"

definition polygonToPath :: "element \<Rightarrow> bool \<Rightarrow> pathData option" where
  "polygonToPath el close =
     (case getAttribute el ''points'' of
        None \<Rightarrow> None
      | Some pointsAttr \<Rightarrow>
          if pointsAttr = [] then None
          else
            (let points = splitSeparators (trim pointsAttr)
             in if length points < 4 then None
                else
                  (let d = [Lit ''M'', Lit (points ! 0), Lit '','', Lit (points ! 1)]
                             @ polygonSegments (drop 2 points)
                   in Some (if close then d @ [Lit '' Z''] else d))))"

definition lineToPath :: "element \<Rightarrow> pathData option" where
  "lineToPath line =
     (let x1 = jsOr (parseFloatAttr (getAttribute line ''x1'')) (Num 0);
          y1 = jsOr (parseFloatAttr (getAttribute line ''y1'')) (Num 0);
          x2 = jsOr (parseFloatAttr (getAttribute line ''x2'')) (Num 0);
          y2 = jsOr (parseFloatAttr (getAttribute line ''y2'')) (Num 0)
      in Some ([Lit ''M''] @ pair x1 y1 @ [Lit '' L''] @ pair x2 y2))"

definition elementToPath :: "element \<Rightarrow> pathData option" where
  "elementToPath el =
     (let tag = toLowerCase (tagName el)
      in if tag = ''path'' then map_option (\<lambda>d. [Lit d]) (getAttribute el ''d'')
         else if tag = ''rect'' then rectToPath el
         else if tag = ''circle'' then circleToPath el
         else if tag = ''ellipse'' then ellipseToPath el
         else if tag = ''polygon'' \<or> tag = ''polyline'' then polygonToPath el (tag = ''polygon'')
         else if tag = ''line'' then lineToPath el
         else None)"

subsection \<open>The view box, the transforms and the paths of a document\<close>

text \<open>
  The view box as \<open>parseViewBox\<close> returns it. A component is \<open>undefined\<close> (here \<open>None\<close>)
  when the \<open>viewBox\<close> attribute holds fewer than four entries.
\<close>

record parsedViewBox =
  pv_minX :: "jsnum option"
  pv_minY :: "jsnum option"
  pv_width :: "jsnum option"
  pv_height :: "jsnum option"

definition entry :: "'a list \<Rightarrow> nat \<Rightarrow> 'a option" where
  "entry xs i = (if i < length xs then Some (xs ! i) else None)"

definition parseViewBox :: "element \<Rightarrow> parsedViewBox" where
  "parseViewBox svg =
     (case getAttribute svg ''viewBox'' of
        Some viewBox \<Rightarrow>
          if viewBox \<noteq> [] then
            (let nums = map toNumber (splitSeparators viewBox)
             in \<lparr>pv_minX = entry nums 0, pv_minY = entry nums 1,
                 pv_width = entry nums 2, pv_height = entry nums 3\<rparr>)
          else
            \<lparr>pv_minX = Some (Num 0), pv_minY = Some (Num 0),
             pv_width = Some (jsOr (parseFloatAttr (getAttribute svg ''width'')) (Num 100)),
             pv_height = Some (jsOr (parseFloatAttr (getAttribute svg ''height'')) (Num 100))\<rparr>
      | None \<Rightarrow>
          \<lparr>pv_minX = Some (Num 0), pv_minY = Some (Num 0),
           pv_width = Some (jsOr (parseFloatAttr (getAttribute svg ''width'')) (Num 100)),
           pv_height = Some (jsOr (parseFloatAttr (getAttribute svg ''height'')) (Num 100))\<rparr>)"

text \<open>
  \<open>getComputedTransform\<close> walks from the element up through \<open>parentElement\<close> until it
  meets an element named \<open>svg\<close> or runs out of parents, and puts each transform it finds
  in front of those found before. The model is given the chain from the element upward:
  the element, its parent, and so on.
\<close>

fun collectTransforms :: "element list \<Rightarrow> string list \<Rightarrow> string list" where
  "collectTransforms [] transforms = transforms"
| "collectTransforms (current # parents) transforms =
     (if tagName current \<noteq> ''svg'' then
        collectTransforms parents
          (case getAttribute current ''transform'' of
             None \<Rightarrow> transforms
           | Some transform \<Rightarrow> if transform \<noteq> [] then transform # transforms else transforms)
      else transforms)"

fun joinWith :: "string \<Rightarrow> string list \<Rightarrow> string" where
  "joinWith sep [] = []"
| "joinWith sep [s] = s"
| "joinWith sep (s # t # rest) = s @ sep @ joinWith sep (t # rest)"

definition getComputedTransform :: "element \<Rightarrow> element list \<Rightarrow> string" where
  "getComputedTransform el parents = joinWith '' '' (collectTransforms (el # parents) [])"

text \<open>
  The elements below a root in document order, each with the chain of its ancestors
  (parent first); \<open>querySelectorAll(tagName)\<close> keeps those of the given name. The
  document is XML, where the name is compared as it is written.
\<close>

fun descendantsFrom :: "element list \<Rightarrow> element \<Rightarrow> (element \<times> element list) list" where
  "descendantsFrom parents (Element t a cs) =
     (Element t a cs, parents)
       # concat (map (descendantsFrom (Element t a cs # parents)) cs)"

definition querySelectorAll :: "element \<Rightarrow> string \<Rightarrow> (element \<times> element list) list" where
  "querySelectorAll scope name =
     filter (\<lambda>(el, parents). tagName el = name)
       (concat (map (descendantsFrom [scope]) (children scope)))"

text \<open>A path descriptor \<open>{d, transform, fill, stroke}\<close> and the result of \<open>extractPaths\<close>.\<close>

record pathInfo =
  pi_d :: pathData
  pi_transform :: string
  pi_fill :: bool
  pi_stroke :: bool

record parseResult =
  pr_paths :: "pathInfo list"
  pr_viewBox :: parsedViewBox

definition supportedElements :: "string list" where
  "supportedElements =
     [''path'', ''circle'', ''rect'', ''ellipse'', ''polygon'', ''polyline'', ''line'']"

text \<open>The body of the inner \<open>forEach\<close> of \<open>extractPaths\<close>: what one element pushes to \<open>paths\<close>.\<close>

definition pathsOfElement :: "element \<Rightarrow> element list \<Rightarrow> pathInfo list" where
  "pathsOfElement el parents =
     (let pathData = elementToPath el
      in if truthy pathData then
           [\<lparr>pi_d = (case pathData of Some d \<Rightarrow> d | None \<Rightarrow> []),
             pi_transform = getComputedTransform el parents,
             pi_fill = (getAttribute el ''fill'' \<noteq> Some ''none''),
             pi_stroke = (getAttribute el ''stroke'' \<noteq> Some ''none'')\<rparr>]
         else [])"

definition extractPaths :: "element \<Rightarrow> parseResult" where
  "extractPaths svgElement =
     (let viewBox = parseViewBox svgElement;
          paths = concat (map (\<lambda>tagName.
                    concat (map (\<lambda>(el, parents). pathsOfElement el parents)
                              (querySelectorAll svgElement tagName)))
                    supportedElements)
      in \<lparr>pr_paths = paths, pr_viewBox = viewBox\<rparr>)"

text \<open>
  \<open>parse\<close>, from the document that \<open>DOMParser\<close> returns (given by its root element): the
  two errors it throws, or the result of \<open>extractPaths\<close> on the first \<open>svg\<close> element.
\<close>

datatype parseError = InvalidSVG | NoSVGElement

definition querySelector :: "element \<Rightarrow> string \<Rightarrow> element option" where
  "querySelector doc name =
     (case filter (\<lambda>(el, parents). tagName el = name) (descendantsFrom [] doc) of
        [] \<Rightarrow> None
      | (el, parents) # rest \<Rightarrow> Some el)"

definition parse :: "element \<Rightarrow> parseError + parseResult" where
  "parse svgDoc =
     (case querySelector svgDoc ''parsererror'' of
        Some parserError \<Rightarrow> Inl InvalidSVG
      | None \<Rightarrow>
          (case querySelector svgDoc ''svg'' of
             None \<Rightarrow> Inl NoSVGElement
           | Some svgElement \<Rightarrow> Inr (extractPaths svgElement)))"

text \<open>The document \<open><svg><rect x="0" y="0" height="10"/></svg>\<close>.\<close>

definition rectWithoutWidth :: element where
  "rectWithoutWidth =
     Element ''svg'' []
       [Element ''rect'' [(''x'', ''0''), (''y'', ''0''), (''height'', ''10'')] []]"

section \<open>Example inputs\<close>

text \<open>
  Concrete inputs on which the theorems below are run: a view box \<open>0 0 10 20\<close> on a
  canvas size of 100 by 100 with two sets of options for \<open>normalize\<close>, three collinear
  points for \<open>removeOverlapping\<close>, and a canvas of 800 by 600 with the scene state the
  script starts with, the hover effect enabled and the cursor at the centre of the canvas.
\<close>

definition exampleViewBox :: viewBox where
  "exampleViewBox = \<lparr>vb_minX = 0, vb_minY = 0, vb_width = 10, vb_height = 20\<rparr>"

definition exampleCanvasSize :: canvasSize where
  "exampleCanvasSize = \<lparr>cs_width = 100, cs_height = 100\<rparr>"

definition containOptions :: normalizeOptions where
  "containOptions =
     \<lparr>opt_fitMode = Some ''contain'', opt_padding = None, opt_offsetX = None, opt_offsetY = None\<rparr>"

definition noneOptions :: normalizeOptions where
  "noneOptions =
     \<lparr>opt_fitMode = Some ''none'', opt_padding = None, opt_offsetX = Some 10, opt_offsetY = None\<rparr>"


definition exampleCanvas :: canvas where
  "exampleCanvas = \<lparr>cv_width = 800, cv_height = 600\<rparr>"

definition exampleTextData :: textData where
  "exampleTextData =
     \<lparr>fontFamily = ''Arial'', lineHeight = 1.2, textOffsetX = 0, textOffsetY = 0,
      hoverEffectEnabled = True, hoverRadius = 150, hoverIntensity = 2,
      mouseX = Some 400, mouseY = Some 300, autoSpeed = 1, autoSize = 5\<rparr>"

section \<open>Properties of SVGCoordinateNormalizer\<close>

lemma normalize_set:
  "set (normalize points vb cs options) = normalizePoint vb cs options ` set points"
  by (cases points) (simp_all add: normalize_def)

lemma contain_scale_bounds:
  assumes "fitModeOf options = ''contain''"
    and "0 < vb_width vb" and "0 < vb_height vb"
    and "0 \<le> effectiveWidth cs options" and "0 \<le> effectiveHeight cs options"
  shows "fitScale vb cs options = (fst (fitScale vb cs options), fst (fitScale vb cs options))"
    and "0 \<le> fst (fitScale vb cs options)"
    and "fst (fitScale vb cs options) * vb_width vb \<le> effectiveWidth cs options"
    and "fst (fitScale vb cs options) * vb_height vb \<le> effectiveHeight cs options"
proof -
  let ?a = "effectiveWidth cs options / vb_width vb"
  let ?b = "effectiveHeight cs options / vb_height vb"
  have s: "fitScale vb cs options = (min ?a ?b, min ?a ?b)"
    using assms(1) by (simp add: fitScale_def Let_def)
  show "fitScale vb cs options = (fst (fitScale vb cs options), fst (fitScale vb cs options))"
    by (simp add: s)
  have a0: "0 \<le> ?a" and b0: "0 \<le> ?b" using assms by simp_all
  show "0 \<le> fst (fitScale vb cs options)" using a0 b0 by (simp add: s)
  have "min ?a ?b * vb_width vb \<le> ?a * vb_width vb"
    using assms(2) by (intro mult_right_mono) simp_all
  then show "fst (fitScale vb cs options) * vb_width vb \<le> effectiveWidth cs options"
    using assms(2) by (simp add: s)
  have "min ?a ?b * vb_height vb \<le> ?b * vb_height vb"
    using assms(3) by (intro mult_right_mono) simp_all
  then show "fst (fitScale vb cs options) * vb_height vb \<le> effectiveHeight cs options"
    using assms(3) by (simp add: s)
qed

lemma scaled_offset_bound:
  fixes s d w e :: real
  assumes "0 \<le> s" and "\<bar>d\<bar> \<le> w / 2" and "s * w \<le> e"
  shows "\<bar>d * s\<bar> \<le> e / 2"
proof -
  have "\<bar>d * s\<bar> = \<bar>d\<bar> * s" using assms(1) by (simp add: abs_mult)
  also have "\<dots> \<le> (w / 2) * s" using assms(1,2) by (intro mult_right_mono)
  also have "\<dots> = (s * w) / 2" by simp
  also have "\<dots> \<le> e / 2" using assms(3) by simp
  finally show ?thesis .
qed

lemma normalizePoint_contain_bounds:
  assumes fit: "fitModeOf options = ''contain''"
    and vbw: "0 < vb_width vb" and vbh: "0 < vb_height vb"
    and ew: "0 \<le> effectiveWidth cs options" and eh: "0 \<le> effectiveHeight cs options"
    and inside: "inViewBox vb p"
  shows "\<bar>p3_x (normalizePoint vb cs options p) - offsetPxX cs options\<bar>
           \<le> effectiveWidth cs options / 2"
    and "\<bar>p3_y (normalizePoint vb cs options p) - offsetPxY cs options\<bar>
           \<le> effectiveHeight cs options / 2"
    and "p3_z (normalizePoint vb cs options p) = 0"
proof -
  let ?s = "fst (fitScale vb cs options)"
  note sb = contain_scale_bounds [OF fit vbw vbh ew eh]
  have sy: "snd (fitScale vb cs options) = ?s"
    by (subst sb(1)) simp
  have px: "p3_x (normalizePoint vb cs options p) - offsetPxX cs options
              = (pt_x p - svgCenterX vb) * ?s"
    by (simp add: normalizePoint_def Let_def case_prod_beta)
  have py: "p3_y (normalizePoint vb cs options p) - offsetPxY cs options
              = - ((pt_y p - svgCenterY vb) * ?s)"
    by (simp add: normalizePoint_def Let_def case_prod_beta sy)
  have dx: "\<bar>pt_x p - svgCenterX vb\<bar> \<le> vb_width vb / 2"
    using inside unfolding inViewBox_def svgCenterX_def by arith
  have dy: "\<bar>pt_y p - svgCenterY vb\<bar> \<le> vb_height vb / 2"
    using inside unfolding inViewBox_def svgCenterY_def by arith
  show "\<bar>p3_x (normalizePoint vb cs options p) - offsetPxX cs options\<bar>
          \<le> effectiveWidth cs options / 2"
    unfolding px by (rule scaled_offset_bound [OF sb(2) dx sb(3)])
  show "\<bar>p3_y (normalizePoint vb cs options p) - offsetPxY cs options\<bar>
          \<le> effectiveHeight cs options / 2"
    unfolding py abs_minus by (rule scaled_offset_bound [OF sb(2) dy sb(4)])
  show "p3_z (normalizePoint vb cs options p) = 0"
    by (simp add: normalizePoint_def Let_def split: prod.splits)
qed

lemma spread_bound:
  fixes f :: "'a \<Rightarrow> real"
  assumes "xs \<noteq> []" and "\<forall>q \<in> set xs. \<bar>f q - c\<bar> \<le> e / 2"
  shows "Max (set (map f xs)) - Min (set (map f xs)) \<le> e"
proof -
  have fin: "finite (set (map f xs))" and ne: "set (map f xs) \<noteq> {}"
    using assms(1) by simp_all
  obtain a where a: "a \<in> set xs" and amax: "Max (set (map f xs)) = f a"
    using Max_in [OF fin ne] by auto
  obtain b where b: "b \<in> set xs" and bmin: "Min (set (map f xs)) = f b"
    using Min_in [OF fin ne] by auto
  have "\<bar>f a - c\<bar> \<le> e / 2" and "\<bar>f b - c\<bar> \<le> e / 2"
    using assms(2) a b by blast+
  then show ?thesis unfolding amax bmin by arith
qed

text \<open>
  Claim C1, as amended. In \<open>contain\<close> mode, for a view box of positive width and height,
  a canvas of non-negative size, a padding fraction of at most one half and input points
  that all lie inside the view box: every output point lies in the padded canvas
  rectangle, which is centred at the offset \<open>(offsetPxX, offsetPxY)\<close> and has the size
  \<open>canvasWidth \<times> (1 - 2 \<times> padding)\<close> by \<open>canvasHeight \<times> (1 - 2 \<times> padding)\<close>, has
  \<open>z = 0\<close>, and the bounding box of a non-empty output is no wider and no higher than
  that rectangle.
\<close>

theorem normalize_contain_within_padded_canvas:
  assumes "fitModeOf options = ''contain''"
    and "0 < vb_width vb" and "0 < vb_height vb"
    and "0 \<le> cs_width cs" and "0 \<le> cs_height cs"
    and "paddingOf options \<le> 1 / 2"
    and "\<forall>p \<in> set points. inViewBox vb p"
  shows "(\<forall>q \<in> set (normalize points vb cs options).
            \<bar>p3_x q - offsetPxX cs options\<bar> \<le> cs_width cs * (1 - 2 * paddingOf options) / 2 \<and>
            \<bar>p3_y q - offsetPxY cs options\<bar> \<le> cs_height cs * (1 - 2 * paddingOf options) / 2 \<and>
            p3_z q = 0) \<and>
         (points \<noteq> [] \<longrightarrow>
            bboxWidth (normalize points vb cs options)
              \<le> cs_width cs * (1 - 2 * paddingOf options) \<and>
            bboxHeight (normalize points vb cs options)
              \<le> cs_height cs * (1 - 2 * paddingOf options))"
proof -
  have ew: "0 \<le> effectiveWidth cs options" and eh: "0 \<le> effectiveHeight cs options"
    using assms(4,5,6) by (simp_all add: effectiveWidth_def effectiveHeight_def)
  have ewq: "effectiveWidth cs options = cs_width cs * (1 - 2 * paddingOf options)"
    and ehq: "effectiveHeight cs options = cs_height cs * (1 - 2 * paddingOf options)"
    by (simp_all add: effectiveWidth_def effectiveHeight_def mult.commute)
  have each: "\<bar>p3_x q - offsetPxX cs options\<bar> \<le> effectiveWidth cs options / 2 \<and>
              \<bar>p3_y q - offsetPxY cs options\<bar> \<le> effectiveHeight cs options / 2 \<and>
              p3_z q = 0"
    if "q \<in> set (normalize points vb cs options)" for q
  proof -
    from that obtain p where p: "p \<in> set points" and q: "q = normalizePoint vb cs options p"
      by (auto simp: normalize_set)
    have "inViewBox vb p" using assms(7) p by blast
    from normalizePoint_contain_bounds [OF assms(1,2,3) ew eh this]
    show ?thesis by (simp add: q)
  qed
  have box: "bboxWidth (normalize points vb cs options) \<le> effectiveWidth cs options \<and>
             bboxHeight (normalize points vb cs options) \<le> effectiveHeight cs options"
    if ne: "points \<noteq> []"
  proof -
    have ne': "normalize points vb cs options \<noteq> []"
      using ne by (simp add: normalize_def)
    have "\<forall>q \<in> set (normalize points vb cs options).
            \<bar>p3_x q - offsetPxX cs options\<bar> \<le> effectiveWidth cs options / 2"
      using each by blast
    from spread_bound [OF ne' this]
    have w: "bboxWidth (normalize points vb cs options) \<le> effectiveWidth cs options"
      by (simp add: bboxWidth_def)
    have "\<forall>q \<in> set (normalize points vb cs options).
            \<bar>p3_y q - offsetPxY cs options\<bar> \<le> effectiveHeight cs options / 2"
      using each by blast
    from spread_bound [OF ne' this]
    have h: "bboxHeight (normalize points vb cs options) \<le> effectiveHeight cs options"
      by (simp add: bboxHeight_def)
    show ?thesis using w h by simp
  qed
  show ?thesis using each box unfolding ewq ehq by blast
qed

text \<open>
  The theorem at a concrete input: the view box \<open>0 0 10 20\<close> on a canvas of 100 by 100
  with the default padding 0.1, where the scale is \<open>min (80 / 10) (80 / 20) = 4\<close>.
\<close>

lemma normalize_contain_example:
  "normalize [\<lparr>pt_x = 0, pt_y = 0\<rparr>, \<lparr>pt_x = 10, pt_y = 20\<rparr>]
       exampleViewBox exampleCanvasSize containOptions
     = [\<lparr>p3_x = - 20, p3_y = 40, p3_z = 0\<rparr>, \<lparr>p3_x = 20, p3_y = - 40, p3_z = 0\<rparr>]"
  by (simp add: normalize_def normalizePoint_def fitScale_def fitModeOf_def paddingOf_def
        offsetPxX_def offsetPxY_def offsetXOf_def offsetYOf_def effectiveWidth_def
        effectiveHeight_def svgCenterX_def svgCenterY_def exampleViewBox_def
        exampleCanvasSize_def containOptions_def Let_def)

theorem normalize_contain_within_padded_canvas_witness:
  "fitModeOf containOptions = ''contain'' \<and> paddingOf containOptions \<le> 1 / 2 \<and>
   0 < vb_width exampleViewBox \<and> 0 < vb_height exampleViewBox \<and>
   0 \<le> cs_width exampleCanvasSize \<and> 0 \<le> cs_height exampleCanvasSize \<and>
   inViewBox exampleViewBox \<lparr>pt_x = 0, pt_y = 0\<rparr> \<and>
   inViewBox exampleViewBox \<lparr>pt_x = 10, pt_y = 20\<rparr> \<and>
   normalize [\<lparr>pt_x = 0, pt_y = 0\<rparr>, \<lparr>pt_x = 10, pt_y = 20\<rparr>]
       exampleViewBox exampleCanvasSize containOptions
     = [\<lparr>p3_x = - 20, p3_y = 40, p3_z = 0\<rparr>, \<lparr>p3_x = 20, p3_y = - 40, p3_z = 0\<rparr>] \<and>
   bboxWidth (normalize [\<lparr>pt_x = 0, pt_y = 0\<rparr>, \<lparr>pt_x = 10, pt_y = 20\<rparr>]
       exampleViewBox exampleCanvasSize containOptions) \<le> 80 \<and>
   bboxHeight (normalize [\<lparr>pt_x = 0, pt_y = 0\<rparr>, \<lparr>pt_x = 10, pt_y = 20\<rparr>]
       exampleViewBox exampleCanvasSize containOptions) \<le> 80"
proof -
  have h1: "fitModeOf containOptions = ''contain''"
    by (simp add: fitModeOf_def containOptions_def)
  have h2: "0 < vb_width exampleViewBox" and h3: "0 < vb_height exampleViewBox"
    by (simp_all add: exampleViewBox_def)
  have h4: "0 \<le> cs_width exampleCanvasSize" and h5: "0 \<le> cs_height exampleCanvasSize"
    by (simp_all add: exampleCanvasSize_def)
  have h6: "paddingOf containOptions \<le> 1 / 2"
    by (simp add: paddingOf_def containOptions_def)
  have i1: "inViewBox exampleViewBox \<lparr>pt_x = 0, pt_y = 0\<rparr>"
    and i2: "inViewBox exampleViewBox \<lparr>pt_x = 10, pt_y = 20\<rparr>"
    by (simp_all add: inViewBox_def exampleViewBox_def)
  have h7: "\<forall>p \<in> set [\<lparr>pt_x = 0, pt_y = 0\<rparr>, \<lparr>pt_x = 10, pt_y = 20\<rparr>]. inViewBox exampleViewBox p"
    using i1 i2 by simp
  have pad: "cs_width exampleCanvasSize * (1 - 2 * paddingOf containOptions) = 80"
    "cs_height exampleCanvasSize * (1 - 2 * paddingOf containOptions) = 80"
    by (simp_all add: exampleCanvasSize_def paddingOf_def containOptions_def)
  from normalize_contain_within_padded_canvas [OF h1 h2 h3 h4 h5 h6 h7]
  have "bboxWidth (normalize [\<lparr>pt_x = 0, pt_y = 0\<rparr>, \<lparr>pt_x = 10, pt_y = 20\<rparr>]
            exampleViewBox exampleCanvasSize containOptions) \<le> 80 \<and>
        bboxHeight (normalize [\<lparr>pt_x = 0, pt_y = 0\<rparr>, \<lparr>pt_x = 10, pt_y = 20\<rparr>]
            exampleViewBox exampleCanvasSize containOptions) \<le> 80"
    unfolding pad by simp
  then show ?thesis using h1 h2 h3 h4 h5 h6 i1 i2 normalize_contain_example by simp
qed

text \<open>
  Claim C1 as it is written fails. First conjunct pair: the point \<open>(100, 10)\<close> lies
  outside the view box \<open>0 0 10 20\<close>; with the point \<open>(0, 10)\<close> beside it the output
  is 400 wide on a padded canvas of width 80, and the second output point has
  \<open>x = 380\<close>, outside the padded canvas. Second conjunct: with the padding fraction
  0.6 the padded width is \<open>100 \<times> (1 - 1.2) = -20\<close>, which no bounding box can stay
  below, not even that of the single point at the centre of the view box.
\<close>

theorem normalize_contain_counterexample:
  "\<not> bboxWidth (normalize [\<lparr>pt_x = 0, pt_y = 10\<rparr>, \<lparr>pt_x = 100, pt_y = 10\<rparr>]
          exampleViewBox exampleCanvasSize containOptions) \<le> 100 * (1 - 2 * 0.1) \<and>
   \<not> (\<forall>q \<in> set (normalize [\<lparr>pt_x = 0, pt_y = 10\<rparr>, \<lparr>pt_x = 100, pt_y = 10\<rparr>]
          exampleViewBox exampleCanvasSize containOptions).
          \<bar>p3_x q\<bar> \<le> 100 * (1 - 2 * 0.1) / 2) \<and>
   \<not> bboxWidth (normalize [\<lparr>pt_x = 5, pt_y = 10\<rparr>] exampleViewBox exampleCanvasSize
          (containOptions\<lparr>opt_padding := Some 0.6\<rparr>)) \<le> 100 * (1 - 2 * 0.6)"
proof -
  have a: "normalize [\<lparr>pt_x = 0, pt_y = 10\<rparr>, \<lparr>pt_x = 100, pt_y = 10\<rparr>]
             exampleViewBox exampleCanvasSize containOptions
           = [\<lparr>p3_x = - 20, p3_y = 0, p3_z = 0\<rparr>, \<lparr>p3_x = 380, p3_y = 0, p3_z = 0\<rparr>]"
    by (simp add: normalize_def normalizePoint_def fitScale_def fitModeOf_def paddingOf_def
          offsetPxX_def offsetPxY_def offsetXOf_def offsetYOf_def effectiveWidth_def
          effectiveHeight_def svgCenterX_def svgCenterY_def exampleViewBox_def
          exampleCanvasSize_def containOptions_def Let_def)
  have b: "normalize [\<lparr>pt_x = 5, pt_y = 10\<rparr>] exampleViewBox exampleCanvasSize
             (containOptions\<lparr>opt_padding := Some 0.6\<rparr>)
           = [\<lparr>p3_x = 0, p3_y = 0, p3_z = 0\<rparr>]"
    by (simp add: normalize_def normalizePoint_def fitScale_def fitModeOf_def paddingOf_def
          offsetPxX_def offsetPxY_def offsetXOf_def offsetYOf_def effectiveWidth_def
          effectiveHeight_def svgCenterX_def svgCenterY_def exampleViewBox_def
          exampleCanvasSize_def containOptions_def Let_def)
  show ?thesis unfolding a b by (simp add: bboxWidth_def)
qed

text \<open>
  Claim C10. For every \<open>fitMode\<close> string other than \<open>contain\<close>, \<open>cover\<close> and
  \<open>stretch\<close>, \<open>normalize\<close> scales by one on both axes: each output point is
  \<open>(x - viewBoxCenterX + offsetPxX, -(y - viewBoxCenterY) + offsetPxY, 0)\<close>.
\<close>

theorem normalize_other_fitMode_unit_scale:
  assumes "opt_fitMode options = Some m"
    and "m \<noteq> ''contain''" and "m \<noteq> ''cover''" and "m \<noteq> ''stretch''"
  shows "normalize points vb cs options
           = map (\<lambda>p. \<lparr>p3_x = pt_x p - svgCenterX vb + offsetPxX cs options,
                        p3_y = - (pt_y p - svgCenterY vb) + offsetPxY cs options,
                        p3_z = 0\<rparr>) points"
proof -
  have "fitScale vb cs options = (1, 1)"
    using assms by (simp add: fitScale_def fitModeOf_def Let_def)
  then have "normalizePoint vb cs options
               = (\<lambda>p. \<lparr>p3_x = pt_x p - svgCenterX vb + offsetPxX cs options,
                        p3_y = - (pt_y p - svgCenterY vb) + offsetPxY cs options,
                        p3_z = 0\<rparr>)"
    by (simp add: normalizePoint_def Let_def fun_eq_iff)
  then show ?thesis by (cases points) (simp_all add: normalize_def)
qed

theorem normalize_other_fitMode_unit_scale_witness:
  "opt_fitMode noneOptions = Some ''none'' \<and>
   ''none'' \<noteq> ''contain'' \<and> ''none'' \<noteq> ''cover'' \<and> ''none'' \<noteq> ''stretch'' \<and>
   normalize [\<lparr>pt_x = 3, pt_y = 4\<rparr>] exampleViewBox exampleCanvasSize noneOptions
     = [\<lparr>p3_x = 8, p3_y = 6, p3_z = 0\<rparr>]"
proof -
  have h: "opt_fitMode noneOptions = Some ''none''" by (simp add: noneOptions_def)
  have n1: "''none'' \<noteq> ''contain''" and n2: "''none'' \<noteq> ''cover''"
    and n3: "''none'' \<noteq> ''stretch''" by simp_all
  from normalize_other_fitMode_unit_scale [OF h n1 n2 n3, of "[\<lparr>pt_x = 3, pt_y = 4\<rparr>]"
      exampleViewBox exampleCanvasSize]
  show ?thesis
    using h by (simp add: svgCenterX_def svgCenterY_def offsetPxX_def offsetPxY_def
        offsetXOf_def offsetYOf_def exampleViewBox_def exampleCanvasSize_def noneOptions_def)
qed

section \<open>Properties of removeOverlapping\<close>













section \<open>Properties of getHoverScale3D\<close>

lemma scaleAtDistance_grow:
  assumes "1 \<le> hoverIntensity td" and "d1 \<le> d2" and "0 < hoverRadius td"
  shows "scaleAtDistance td d2 \<le> scaleAtDistance td d1" and "1 \<le> scaleAtDistance td d2"
proof -
  let ?R = "hoverRadius td" and ?I = "hoverIntensity td"
  have val: "scaleAtDistance td d = 1 + (?I - 1) * (1 - d / ?R)"
    and ge1: "1 \<le> scaleAtDistance td d" if "d < ?R" for d
  proof -
    have "0 \<le> 1 - d / ?R" using that assms(3) by simp
    then have "0 \<le> (?I - 1) * (1 - d / ?R)" using assms(1) by simp
    then have "max (1 / 10) (1 + (?I - 1) * (1 - d / ?R)) = 1 + (?I - 1) * (1 - d / ?R)"
      by simp
    then show "scaleAtDistance td d = 1 + (?I - 1) * (1 - d / ?R)"
      using that assms(1) by (simp add: scaleAtDistance_def Let_def)
    then show "1 \<le> scaleAtDistance td d"
      using \<open>0 \<le> (?I - 1) * (1 - d / ?R)\<close> by simp
  qed
  have out: "scaleAtDistance td d = 1" if "?R \<le> d" for d
    using that by (simp add: scaleAtDistance_def)
  show "1 \<le> scaleAtDistance td d2"
    using ge1 [of d2] out [of d2] by (cases "d2 < ?R") simp_all
  show "scaleAtDistance td d2 \<le> scaleAtDistance td d1"
  proof (cases "d2 < ?R")
    case True
    then have d1: "d1 < ?R" using assms(2) by simp
    have "d1 / ?R \<le> d2 / ?R" using assms(2,3) by (simp add: divide_right_mono)
    then have "(?I - 1) * (1 - d2 / ?R) \<le> (?I - 1) * (1 - d1 / ?R)"
      using assms(1) by (intro mult_left_mono) simp_all
    then show ?thesis by (simp add: val [OF True] val [OF d1])
  next
    case False
    then have "scaleAtDistance td d2 = 1" using out by simp
    moreover have "1 \<le> scaleAtDistance td d1"
      using ge1 [of d1] out [of d1] by (cases "d1 < ?R") simp_all
    ultimately show ?thesis by simp
  qed
qed

lemma scaleAtDistance_shrink:
  assumes "hoverIntensity td < 1" and "d1 \<le> d2" and "0 < hoverRadius td"
  shows "scaleAtDistance td d1 \<le> scaleAtDistance td d2" and "scaleAtDistance td d2 \<le> 1"
proof -
  let ?R = "hoverRadius td" and ?I = "hoverIntensity td"
  define k where "k = 1 - max (1 / 10) (1 / (\<bar>?I\<bar> + 1))"
  have "1 / (\<bar>?I\<bar> + 1) \<le> 1" by simp
  then have k0: "0 \<le> k" by (simp add: k_def)
  have val: "scaleAtDistance td d = max (1 / 10) (1 - k * (1 - d / ?R))" if "d < ?R" for d
    using that assms(1) by (simp add: scaleAtDistance_def Let_def k_def)
  have le1: "scaleAtDistance td d \<le> 1" for d
  proof (cases "d < ?R")
    case True
    then have "0 \<le> 1 - d / ?R" using assms(3) by simp
    then have "0 \<le> k * (1 - d / ?R)" using k0 by simp
    then show ?thesis by (simp add: val [OF True])
  next
    case False
    then show ?thesis by (simp add: scaleAtDistance_def)
  qed
  show "scaleAtDistance td d2 \<le> 1" by (rule le1)
  show "scaleAtDistance td d1 \<le> scaleAtDistance td d2"
  proof (cases "d2 < ?R")
    case True
    then have d1: "d1 < ?R" using assms(2) by simp
    have "d1 / ?R \<le> d2 / ?R" using assms(2,3) by (simp add: divide_right_mono)
    then have "k * (1 - d2 / ?R) \<le> k * (1 - d1 / ?R)"
      using k0 by (intro mult_left_mono) simp_all
    then have "1 - k * (1 - d1 / ?R) \<le> 1 - k * (1 - d2 / ?R)" by simp
    then show ?thesis unfolding val [OF True] val [OF d1] by (rule max.mono [OF order_refl])
  next
    case False
    then have "scaleAtDistance td d2 = 1" by (simp add: scaleAtDistance_def)
    then show ?thesis using le1 [of d1] by simp
  qed
qed

text \<open>
  Claim C7. Whatever the intensity, the radius and the point: when the cursor is set and
  the screen-space distance from the point to the cursor is at least the radius, the
  hover scale is exactly 1.
\<close>

theorem getHoverScale3D_outside_radius:
  assumes "mouseX td = Some mx" and "mouseY td = Some my"
    and "hoverRadius td \<le> screenDistance cam cv mx my pointX pointY"
  shows "getHoverScale3D cam cv td pointX pointY = 1"
  using assms by (simp add: getHoverScale3D_def scaleAtDistance_def)

text \<open>
  The theorem on a canvas of 800 by 600 under the camera of \<open>init\<close>, with the cursor at
  the centre of the canvas, the radius 150 and the intensity 2: the scene point
  \<open>(200, 0)\<close> is 200 pixels from the cursor.
\<close>

lemma screenDistance_example:
  "screenDistance (initCamera exampleCanvas) exampleCanvas 400 300 x 0 = \<bar>x\<bar>"
  by (simp add: screenDistance_def initCamera_def exampleCanvas_def Let_def add_divide_distrib)

theorem getHoverScale3D_outside_radius_witness:
  "mouseX exampleTextData = Some 400 \<and> mouseY exampleTextData = Some 300 \<and>
   hoverRadius exampleTextData
     \<le> screenDistance (initCamera exampleCanvas) exampleCanvas 400 300 200 0 \<and>
   getHoverScale3D (initCamera exampleCanvas) exampleCanvas exampleTextData 200 0 = 1"
proof -
  have h1: "mouseX exampleTextData = Some 400" and h2: "mouseY exampleTextData = Some 300"
    by (simp_all add: exampleTextData_def)
  have h3: "hoverRadius exampleTextData
              \<le> screenDistance (initCamera exampleCanvas) exampleCanvas 400 300 200 0"
    by (simp add: screenDistance_example exampleTextData_def)
  from getHoverScale3D_outside_radius [OF h1 h2 h3] h1 h2 h3 show ?thesis by simp
qed

text \<open>
  Claim C8. For a fixed intensity, radius (positive) and cursor, the hover scale is
  monotonic in the distance: of two points, the one nearer to the cursor has the scale
  farther from 1 (or as far). With an intensity of at least 1 the scale is at least 1 and
  grows toward the cursor; with an intensity below 1 it is at most 1 and shrinks toward
  the cursor. The two distances need not lie within the radius.
\<close>

theorem getHoverScale3D_monotone_in_distance:
  assumes "0 < hoverRadius td"
    and "mouseX td = Some mx" and "mouseY td = Some my"
    and "screenDistance cam cv mx my x1 y1 \<le> screenDistance cam cv mx my x2 y2"
  shows "\<bar>getHoverScale3D cam cv td x2 y2 - 1\<bar> \<le> \<bar>getHoverScale3D cam cv td x1 y1 - 1\<bar> \<and>
         (1 \<le> hoverIntensity td \<longrightarrow>
            1 \<le> getHoverScale3D cam cv td x2 y2 \<and>
            getHoverScale3D cam cv td x2 y2 \<le> getHoverScale3D cam cv td x1 y1) \<and>
         (hoverIntensity td < 1 \<longrightarrow>
            getHoverScale3D cam cv td x1 y1 \<le> getHoverScale3D cam cv td x2 y2 \<and>
            getHoverScale3D cam cv td x2 y2 \<le> 1)"
proof (cases "hoverEffectEnabled td")
  case False
  then show ?thesis by (simp add: getHoverScale3D_def)
next
  case True
  let ?d1 = "screenDistance cam cv mx my x1 y1" and ?d2 = "screenDistance cam cv mx my x2 y2"
  have g1: "getHoverScale3D cam cv td x1 y1 = scaleAtDistance td ?d1"
    and g2: "getHoverScale3D cam cv td x2 y2 = scaleAtDistance td ?d2"
    using True assms(2,3) by (simp_all add: getHoverScale3D_def)
  show ?thesis
  proof (cases "1 \<le> hoverIntensity td")
    case True
    from scaleAtDistance_grow [OF True assms(4) assms(1)]
    show ?thesis using True unfolding g1 g2 by simp
  next
    case False
    then have lt: "hoverIntensity td < 1" by simp
    from scaleAtDistance_shrink [OF lt assms(4) assms(1)]
    show ?thesis using lt unfolding g1 g2 by simp
  qed
qed

lemma getHoverScale3D_example:
  "getHoverScale3D (initCamera exampleCanvas) exampleCanvas exampleTextData 0 0 = 2"
  "getHoverScale3D (initCamera exampleCanvas) exampleCanvas exampleTextData 75 0 = 3 / 2"
  by (simp_all add: getHoverScale3D_def scaleAtDistance_def screenDistance_example
        exampleTextData_def Let_def)

theorem getHoverScale3D_monotone_in_distance_witness:
  "0 < hoverRadius exampleTextData \<and>
   mouseX exampleTextData = Some 400 \<and> mouseY exampleTextData = Some 300 \<and>
   screenDistance (initCamera exampleCanvas) exampleCanvas 400 300 0 0
     \<le> screenDistance (initCamera exampleCanvas) exampleCanvas 400 300 75 0 \<and>
   getHoverScale3D (initCamera exampleCanvas) exampleCanvas exampleTextData 0 0 = 2 \<and>
   getHoverScale3D (initCamera exampleCanvas) exampleCanvas exampleTextData 75 0 = 3 / 2 \<and>
   \<bar>getHoverScale3D (initCamera exampleCanvas) exampleCanvas exampleTextData 75 0 - 1\<bar>
     \<le> \<bar>getHoverScale3D (initCamera exampleCanvas) exampleCanvas exampleTextData 0 0 - 1\<bar>"
proof -
  have h0: "0 < hoverRadius exampleTextData" by (simp add: exampleTextData_def)
  have h1: "mouseX exampleTextData = Some 400" and h2: "mouseY exampleTextData = Some 300"
    by (simp_all add: exampleTextData_def)
  have h3: "screenDistance (initCamera exampleCanvas) exampleCanvas 400 300 0 0
              \<le> screenDistance (initCamera exampleCanvas) exampleCanvas 400 300 75 0"
    by (simp add: screenDistance_example)
  from getHoverScale3D_monotone_in_distance [OF h0 h1 h2 h3]
  have "\<bar>getHoverScale3D (initCamera exampleCanvas) exampleCanvas exampleTextData 75 0 - 1\<bar>
          \<le> \<bar>getHoverScale3D (initCamera exampleCanvas) exampleCanvas exampleTextData 0 0 - 1\<bar>"
    by blast
  with h0 h1 h2 h3 getHoverScale3D_example show ?thesis by blast
qed

section \<open>Properties of getAutoPosition\<close>

text \<open>
  Claim C9. In the \<open>circle\<close> pattern, at a time \<open>t\<close> (the call's time scaled by
  \<open>autoSpeed \<times> 0.0003\<close>) with \<open>cos t = 1\<close> and \<open>sin t = 0\<close>, the position is exactly
  \<open>(centerX + 0.3 \<times> canvasWidth \<times> sizeMultiplier, centerY)\<close> with
  \<open>sizeMultiplier = autoSize \<times> 0.1\<close>; the pattern state is left as it was.
\<close>

theorem getAutoPosition_circle_at_zero_angle:
  assumes "cos (time * (autoSpeed td * 0.0003)) = 1"
    and "sin (time * (autoSpeed td * 0.0003)) = 0"
  shows "getAutoPosition rnd cv td cachedPoints st time ''circle''
           = (\<lparr>pt_x = real (cv_width cv) / 2 + 0.3 * real (cv_width cv) * (autoSize td * 0.1),
                pt_y = real (cv_height cv) / 2\<rparr>, st)"
  using assms by (simp add: getAutoPosition_def Let_def)

theorem getAutoPosition_circle_at_zero_angle_witness:
  "cos (0 * (autoSpeed exampleTextData * 0.0003)) = 1 \<and>
   sin (0 * (autoSpeed exampleTextData * 0.0003)) = 0 \<and>
   getAutoPosition (\<lambda>i. 3 / 4) exampleCanvas exampleTextData None initialAutoState 0 ''circle''
     = (\<lparr>pt_x = 520, pt_y = 300\<rparr>, initialAutoState)"
proof -
  have c: "cos (0 * (autoSpeed exampleTextData * 0.0003)) = 1"
    and s: "sin (0 * (autoSpeed exampleTextData * 0.0003)) = 0" by simp_all
  from getAutoPosition_circle_at_zero_angle [OF c s, of "\<lambda>i. 3 / 4" exampleCanvas None
      initialAutoState]
  show ?thesis by (simp add: exampleCanvas_def exampleTextData_def)
qed

lemma randomPattern_first_call:
  assumes "\<not> randomInitialized st"
  shows "randomInitialized (snd (randomPattern rnd cv td st time))"
    and "randomTarget (snd (randomPattern rnd cv td st time)) =
           \<lparr>pt_x = real (cv_width cv) / 2
                     + (rnd (randomCalls (snd (randomPattern rnd cv td st time)) - 2) * 2 - 1)
                       * (real (cv_width cv) * 0.4 * (autoSize td * 0.1)),
            pt_y = real (cv_height cv) / 2
                     + (rnd (randomCalls (snd (randomPattern rnd cv td st time)) - 1) * 2 - 1)
                       * (real (cv_height cv) * 0.35 * (autoSize td * 0.1))\<rparr>"
    and "fst (randomPattern rnd cv td st time) =
           \<lparr>pt_x = real (cv_width cv) / 2
                     + (pt_x (randomTarget (snd (randomPattern rnd cv td st time)))
                          - real (cv_width cv) / 2) * (0.02 + autoSpeed td * 0.008),
            pt_y = real (cv_height cv) / 2
                     + (pt_y (randomTarget (snd (randomPattern rnd cv td st time)))
                          - real (cv_height cv) / 2) * (0.02 + autoSpeed td * 0.008)\<rparr>"
    and "randomCurrent (snd (randomPattern rnd cv td st time))
           = fst (randomPattern rnd cv td st time)"
  using assms by (simp_all add: randomPattern_def rollTarget_def Let_def)

lemma random_offset_bound:
  fixes r range :: real
  assumes "0 \<le> r" and "r < 1"
  shows "\<bar>(r * 2 - 1) * range\<bar> \<le> \<bar>range\<bar>"
proof -
  have "\<bar>r * 2 - 1\<bar> \<le> 1" using assms by (simp add: abs_le_iff)
  then have "\<bar>r * 2 - 1\<bar> * \<bar>range\<bar> \<le> 1 * \<bar>range\<bar>"
    by (intro mult_right_mono) simp_all
  then show ?thesis by (simp add: abs_mult)
qed

text \<open>
  Claim C3, as amended. On the first call in the \<open>random\<close> pattern (random state not
  initialised), the current position is initialised to the canvas centre and the target
  to a random point: the centre plus \<open>(2 r - 1) \<times> rangeX\<close> and \<open>(2 r' - 1) \<times> rangeY\<close>
  for the two latest values \<open>r\<close>, \<open>r'\<close> of \<open>Math.random()\<close>, which lies in the rectangle
  of half-width \<open>rangeX = 0.4 \<times> canvasWidth \<times> sizeMultiplier\<close> and half-height
  \<open>rangeY = 0.35 \<times> canvasHeight \<times> sizeMultiplier\<close> around the centre when the random
  values lie in \<open>[0, 1)\<close>. The position returned is the current position after one easing
  step: the centre plus \<open>easeSpeed \<times> (target - centre)\<close>, with
  \<open>easeSpeed = 0.02 + autoSpeed \<times> 0.008\<close>; the state is initialised afterwards.
\<close>

theorem getAutoPosition_random_first_call:
  assumes "\<not> randomInitialized st"
  shows "randomInitialized (snd (getAutoPosition rnd cv td cachedPoints st time ''random'')) \<and>
         randomTarget (snd (getAutoPosition rnd cv td cachedPoints st time ''random'')) =
           \<lparr>pt_x = real (cv_width cv) / 2
               + (rnd (randomCalls (snd (getAutoPosition rnd cv td cachedPoints st time
                    ''random'')) - 2) * 2 - 1)
                 * (real (cv_width cv) * 0.4 * (autoSize td * 0.1)),
            pt_y = real (cv_height cv) / 2
               + (rnd (randomCalls (snd (getAutoPosition rnd cv td cachedPoints st time
                    ''random'')) - 1) * 2 - 1)
                 * (real (cv_height cv) * 0.35 * (autoSize td * 0.1))\<rparr> \<and>
         fst (getAutoPosition rnd cv td cachedPoints st time ''random'') =
           \<lparr>pt_x = real (cv_width cv) / 2
               + (pt_x (randomTarget (snd (getAutoPosition rnd cv td cachedPoints st time
                    ''random''))) - real (cv_width cv) / 2) * (0.02 + autoSpeed td * 0.008),
            pt_y = real (cv_height cv) / 2
               + (pt_y (randomTarget (snd (getAutoPosition rnd cv td cachedPoints st time
                    ''random''))) - real (cv_height cv) / 2) * (0.02 + autoSpeed td * 0.008)\<rparr> \<and>
         randomCurrent (snd (getAutoPosition rnd cv td cachedPoints st time ''random''))
           = fst (getAutoPosition rnd cv td cachedPoints st time ''random'') \<and>
         ((\<forall>i. 0 \<le> rnd i \<and> rnd i < 1) \<longrightarrow>
            \<bar>pt_x (randomTarget (snd (getAutoPosition rnd cv td cachedPoints st time ''random'')))
               - real (cv_width cv) / 2\<bar> \<le> \<bar>real (cv_width cv) * 0.4 * (autoSize td * 0.1)\<bar> \<and>
            \<bar>pt_y (randomTarget (snd (getAutoPosition rnd cv td cachedPoints st time ''random'')))
               - real (cv_height cv) / 2\<bar> \<le> \<bar>real (cv_height cv) * 0.35 * (autoSize td * 0.1)\<bar>)"
proof -
  have g: "getAutoPosition rnd cv td cachedPoints st time ''random''
             = randomPattern rnd cv td st time"
    by (simp add: getAutoPosition_def Let_def)
  note f = randomPattern_first_call [OF assms, of rnd cv td time]
  have bdx: "\<bar>pt_x (randomTarget (snd (randomPattern rnd cv td st time)))
               - real (cv_width cv) / 2\<bar> \<le> \<bar>real (cv_width cv) * 0.4 * (autoSize td * 0.1)\<bar>"
    and bdy: "\<bar>pt_y (randomTarget (snd (randomPattern rnd cv td st time)))
               - real (cv_height cv) / 2\<bar> \<le> \<bar>real (cv_height cv) * 0.35 * (autoSize td * 0.1)\<bar>"
    if r: "\<forall>i. 0 \<le> rnd i \<and> rnd i < 1"
  proof -
    from r have r0: "0 \<le> rnd i" and r1: "rnd i < 1" for i by simp_all
    show "\<bar>pt_x (randomTarget (snd (randomPattern rnd cv td st time)))
               - real (cv_width cv) / 2\<bar> \<le> \<bar>real (cv_width cv) * 0.4 * (autoSize td * 0.1)\<bar>"
      by (subst f(2)) (simp only: point2.simps add_diff_cancel_left' random_offset_bound [OF r0 r1])
    show "\<bar>pt_y (randomTarget (snd (randomPattern rnd cv td st time)))
               - real (cv_height cv) / 2\<bar> \<le> \<bar>real (cv_height cv) * 0.35 * (autoSize td * 0.1)\<bar>"
      by (subst f(2)) (simp only: point2.simps add_diff_cancel_left' random_offset_bound [OF r0 r1])
  qed
  show ?thesis unfolding g using f(1) f(2) f(3) f(4) bdx bdy by (intro conjI impI)
qed

text \<open>
  The first call on a canvas of 800 by 600 with \<open>autoSpeed = 1\<close>, \<open>autoSize = 5\<close> and
  \<open>Math.random()\<close> returning 0.75: the target becomes \<open>(480, 352.5)\<close> and the position
  returned is \<open>(402.24, 301.47)\<close>, not the canvas centre \<open>(400, 300)\<close>. So claim C3 as it
  is written fails.
\<close>

lemma getAutoPosition_random_example:
  "getAutoPosition (\<lambda>i. 3 / 4) exampleCanvas exampleTextData None initialAutoState 16 ''random''
     = (\<lparr>pt_x = 402.24, pt_y = 301.47\<rparr>,
        \<lparr>randomTarget = \<lparr>pt_x = 480, pt_y = 352.5\<rparr>,
         randomCurrent = \<lparr>pt_x = 402.24, pt_y = 301.47\<rparr>,
         randomLastTime = 0, randomInitialized = True, traceIndex = 0, randomCalls = 2\<rparr>)"
  by (simp add: getAutoPosition_def randomPattern_def rollTarget_def initialAutoState_def
        exampleCanvas_def exampleTextData_def Let_def)

theorem getAutoPosition_random_first_call_counterexample:
  "\<not> randomInitialized initialAutoState \<and>
   fst (getAutoPosition (\<lambda>i. 3 / 4) exampleCanvas exampleTextData None initialAutoState 16
          ''random'')
     \<noteq> \<lparr>pt_x = real (cv_width exampleCanvas) / 2, pt_y = real (cv_height exampleCanvas) / 2\<rparr> \<and>
   randomTarget (snd (getAutoPosition (\<lambda>i. 3 / 4) exampleCanvas exampleTextData None
          initialAutoState 16 ''random''))
     \<noteq> \<lparr>pt_x = real (cv_width exampleCanvas) / 2, pt_y = real (cv_height exampleCanvas) / 2\<rparr>"
  unfolding getAutoPosition_random_example
  by (simp add: initialAutoState_def exampleCanvas_def)

theorem getAutoPosition_random_first_call_witness:
  "\<not> randomInitialized initialAutoState \<and>
   randomInitialized (snd (getAutoPosition (\<lambda>i. 3 / 4) exampleCanvas exampleTextData None
      initialAutoState 16 ''random'')) \<and>
   fst (getAutoPosition (\<lambda>i. 3 / 4) exampleCanvas exampleTextData None initialAutoState 16
      ''random'') = \<lparr>pt_x = 400 + (480 - 400) * 0.028, pt_y = 300 + (352.5 - 300) * 0.028\<rparr>"
proof -
  have h: "\<not> randomInitialized initialAutoState" by (simp add: initialAutoState_def)
  from getAutoPosition_random_first_call [OF h, of "\<lambda>i. 3 / 4" exampleCanvas exampleTextData
      None 16]
  have "randomInitialized (snd (getAutoPosition (\<lambda>i. 3 / 4) exampleCanvas exampleTextData None
      initialAutoState 16 ''random''))" by blast
  then show ?thesis using h by (simp add: getAutoPosition_random_example)
qed

section \<open>Properties of getTextPoints\<close>

lemma scanPixel_append: "scanPixel data w h x y points = points @ scanPixel data w h x y []"
  by (simp add: scanPixel_def Let_def)

lemma loopValues_cases:
  assumes "loopValues ops step bound x = Some xs"
  shows "(\<not> x < bound \<and> xs = []) \<or>
         (x < bound \<and> (\<exists>rest. xs = x # rest \<and>
            loopValues ops step bound (fl_add ops x step) = Some rest))"
  using assms
  by (subst (asm) loopValues.simps) (auto split: if_splits simp: bind_eq_Some_conv)

lemma loopValues_below: "loopValues ops step bound x = Some xs \<Longrightarrow> \<forall>v \<in> set xs. v < bound"
proof (induction xs arbitrary: x)
  case Nil
  then show ?case by simp
next
  case (Cons a xs)
  from loopValues_cases [OF Cons.prems]
  have "x < bound" and "a = x" and "loopValues ops step bound (fl_add ops x step) = Some xs"
    by simp_all
  with Cons.IH show ?case by simp
qed

text \<open>The two loops return what the loop body pushes at the values of their counters.\<close>

lemma scanRow_values:
  "loopValues ops step (real w) x = Some xs \<Longrightarrow>
   scanRow ops data w h step y x points
     = Some (points @ concat (map (\<lambda>x'. scanPixel data w h x' y []) xs))"
proof (induction xs arbitrary: x points)
  case Nil
  from loopValues_cases [OF Nil] have "\<not> x < real w" by simp
  then show ?case by (subst scanRow.simps) simp
next
  case (Cons a xs)
  from loopValues_cases [OF Cons.prems]
  have lt: "x < real w" and a: "a = x"
    and rest: "loopValues ops step (real w) (fl_add ops x step) = Some xs"
    by simp_all
  have "scanRow ops data w h step y x points
          = scanRow ops data w h step y (fl_add ops x step) (scanPixel data w h x y points)"
    using lt by (subst scanRow.simps) simp
  also have "\<dots> = Some (scanPixel data w h x y points
                       @ concat (map (\<lambda>x'. scanPixel data w h x' y []) xs))"
    by (rule Cons.IH [OF rest])
  also have "\<dots> = Some (points @ concat (map (\<lambda>x'. scanPixel data w h x' y []) (a # xs)))"
    by (subst scanPixel_append) (simp add: a)
  finally show ?case .
qed

lemma scanRows_values:
  assumes cols: "loopValues ops step (real w) 0 = Some xs"
  shows "loopValues ops step (real h) y = Some ys \<Longrightarrow>
         scanRows ops data w h step y points = Some (points @ scannedPoints data w h xs ys)"
proof (induction ys arbitrary: y points)
  case Nil
  from loopValues_cases [OF Nil] have "\<not> y < real h" by simp
  then show ?case by (subst scanRows.simps) (simp add: scannedPoints_def)
next
  case (Cons a ys)
  from loopValues_cases [OF Cons.prems]
  have lt: "y < real h" and a: "a = y"
    and rest: "loopValues ops step (real h) (fl_add ops y step) = Some ys"
    by simp_all
  let ?row = "concat (map (\<lambda>x'. scanPixel data w h x' y []) xs)"
  have "scanRows ops data w h step y points
          = scanRows ops data w h step (fl_add ops y step) (points @ ?row)"
    using lt by (subst scanRows.simps) (simp add: scanRow_values [OF cols])
  also have "\<dots> = Some ((points @ ?row) @ scannedPoints data w h xs ys)"
    by (rule Cons.IH [OF rest])
  also have "\<dots> = Some (points @ scannedPoints data w h xs (a # ys))"
    by (simp add: scannedPoints_def a)
  finally show ?case .
qed

lemma getTextPoints_values:
  assumes "0 < cv_width cv" and "0 < cv_height cv"
    and "loopValues ops spacing (real (cv_width cv)) 0 = Some xs"
    and "loopValues ops spacing (real (cv_height cv)) 0 = Some ys"
  shows "getTextPoints ops fill cv td text fontSize spacing
           = Some (Inr (scannedPoints (drawnText fill cv td text fontSize)
                          (cv_width cv) (cv_height cv) xs ys))"
  using assms(1,2)
  by (simp add: getTextPoints_def Let_def scanRows_values [OF assms(3) assms(4)])

text \<open>A counter that advances reaches the bound, and its values are not negative.\<close>

lemma loopValues_advances:
  assumes "advances ops step bound" and "0 \<le> x"
  shows "\<exists>xs. loopValues ops step bound x = Some xs \<and> (\<forall>v \<in> set xs. 0 \<le> v \<and> v < bound)"
proof -
  from assms(1) obtain d where d: "0 < d"
    and adv: "\<And>x. 0 \<le> x \<Longrightarrow> x < bound \<Longrightarrow> x + d \<le> fl_add ops x step"
    unfolding advances_def by blast
  have run: "0 \<le> x \<Longrightarrow> bound - x \<le> real n * d \<Longrightarrow>
             \<exists>xs. loopValues ops step bound x = Some xs \<and> (\<forall>v \<in> set xs. 0 \<le> v)" for n x
  proof (induction n arbitrary: x)
    case 0
    then have "\<not> x < bound" by simp
    then have "loopValues ops step bound x = Some []" by (subst loopValues.simps) simp
    then show ?case by simp
  next
    case (Suc n)
    show ?case
    proof (cases "x < bound")
      case False
      then have "loopValues ops step bound x = Some []" by (subst loopValues.simps) simp
      then show ?thesis by simp
    next
      case True
      let ?x' = "fl_add ops x step"
      have step: "x + d \<le> ?x'" by (rule adv [OF Suc.prems(1) True])
      then have nonneg: "0 \<le> ?x'" using Suc.prems(1) d by linarith
      have "bound - x \<le> real n * d + d" using Suc.prems(2) by (simp add: algebra_simps)
      then have "bound - ?x' \<le> real n * d" using step by linarith
      from Suc.IH [OF nonneg this] obtain rest
        where rest: "loopValues ops step bound ?x' = Some rest" and pos: "\<forall>v \<in> set rest. 0 \<le> v"
        by blast
      have "loopValues ops step bound x = Some (x # rest)"
        using True rest by (subst loopValues.simps) simp
      then show ?thesis using pos Suc.prems(1) by simp
    qed
  qed
  define n where "n = nat \<lceil>(bound - x) / d\<rceil>"
  have "(bound - x) / d \<le> real n" unfolding n_def by linarith
  then have "bound - x \<le> real n * d" using d by (simp add: pos_divide_le_eq)
  from run [OF assms(2) this] obtain xs
    where xs: "loopValues ops step bound x = Some xs" and pos: "\<forall>v \<in> set xs. 0 \<le> v"
    by blast
  from loopValues_below [OF xs] pos xs show ?thesis by blast
qed

lemma advances_exact: "0 < step \<Longrightarrow> advances exactOps step bound"
  unfolding advances_def by (rule exI [of _ step]) (simp add: exactOps_def)

text \<open>
  With exact addition the counter values are the multiples of the step below the bound.
\<close>

lemma steps_left:
  fixes bound x step :: real
  assumes "0 < step"
  shows "x < bound \<Longrightarrow> nat \<lceil>(bound - x) / step\<rceil> = Suc (nat \<lceil>(bound - (x + step)) / step\<rceil>)"
    and "\<not> x < bound \<Longrightarrow> nat \<lceil>(bound - x) / step\<rceil> = 0"
proof -
  have eq: "(bound - (x + step)) / step = (bound - x) / step - 1"
    using assms by (simp add: field_simps)
  show "nat \<lceil>(bound - x) / step\<rceil> = Suc (nat \<lceil>(bound - (x + step)) / step\<rceil>)" if "x < bound"
  proof -
    define c where "c = \<lceil>(bound - x) / step\<rceil>"
    have "0 < (bound - x) / step" using that assms by simp
    then have "0 < c" by (simp add: c_def less_ceiling_iff)
    then have "nat c = Suc (nat (c - 1))" by arith
    then show ?thesis unfolding eq ceiling_diff_one c_def .
  qed
  show "nat \<lceil>(bound - x) / step\<rceil> = 0" if "\<not> x < bound"
  proof -
    have "(bound - x) / step \<le> 0" using that assms by (simp add: divide_le_0_iff)
    then have "\<lceil>(bound - x) / step\<rceil> \<le> 0" by (simp add: ceiling_le_iff)
    then show ?thesis by simp
  qed
qed

lemma upt_shift: "[0..<Suc k] = 0 # map Suc [0..<k]"
  by (simp add: upt_conv_Cons map_Suc_upt del: upt_Suc)

lemma loopValues_exact:
  assumes "0 < step"
  shows "loopValues exactOps step bound x
           = Some (map (\<lambda>i. x + real i * step) [0..<nat \<lceil>(bound - x) / step\<rceil>])"
proof (induction "nat \<lceil>(bound - x) / step\<rceil>" arbitrary: x)
  case 0
  then have "\<not> x < bound"
    using steps_left(1) [OF assms, of x bound] by force
  then show ?case using 0 by (subst loopValues.simps) simp
next
  case (Suc k)
  then have lt: "x < bound"
    using steps_left(2) [OF assms, of x bound] by force
  from steps_left(1) [OF assms lt] Suc(2)
  have k: "k = nat \<lceil>(bound - (x + step)) / step\<rceil>" by simp
  have shift: "x + step + real i * step = x + real (Suc i) * step" for i
    by (simp add: algebra_simps)
  have add: "fl_add exactOps x step = x + step" by (simp add: exactOps_def)
  have "loopValues exactOps step bound x
          = Some (x # map (\<lambda>i. x + step + real i * step) [0..<k])"
    using lt Suc(1) [OF k] k by (subst loopValues.simps) (simp add: add)
  also have "\<dots> = Some (map (\<lambda>i. x + real i * step) [0..<Suc k])"
    unfolding upt_shift shift by (simp add: comp_def)
  finally show ?case using Suc(2) by simp
qed

text \<open>
  A scan that has begun never returns when adding the step does not increase the
  counter, as with a step of zero or less.
\<close>

lemma scanRow_diverges:
  assumes "\<forall>v. fl_add ops v step \<le> v" and "x < real w"
  shows "scanRow ops data w h step y x points = None"
proof (rule ccontr)
  assume "scanRow ops data w h step y x points \<noteq> None"
  then obtain r where r: "scanRow ops data w h step y x points = Some r" by blast
  have "(\<forall>v. fl_add ops v step \<le> v) \<longrightarrow> \<not> x < real w"
  proof (rule scanRow.raw_induct
      [where P = "\<lambda>ops data w h step y x points r.
                    (\<forall>v. fl_add ops v step \<le> v) \<longrightarrow> \<not> x < real w"
         and xa = "(((((((ops, data), w), h), step), y), x), points)" and ya = r, simplified])
    fix f :: "floatOps \<Rightarrow> pixels \<Rightarrow> nat \<Rightarrow> nat \<Rightarrow> real \<Rightarrow> real \<Rightarrow> real \<Rightarrow> point3 list
                \<Rightarrow> point3 list option"
      and ops0 :: floatOps and w0 :: nat and step0 x0 :: real and data0 h0 y0 points0 r0
    assume ih: "\<And>ops' data' w' h' step' y' x' points' r'.
        f ops' data' w' h' step' y' x' points' = Some r' \<Longrightarrow>
        (\<forall>v. fl_add ops' v step' \<le> v) \<longrightarrow> \<not> x' < real w'"
      and body: "(if x0 < real w0
          then f ops0 data0 w0 h0 step0 y0 (fl_add ops0 x0 step0)
                 (scanPixel data0 w0 h0 x0 y0 points0)
          else Some points0) = Some r0"
    show "(\<forall>v. fl_add ops0 v step0 \<le> v) \<longrightarrow> \<not> x0 < real w0"
    proof (intro impI notI)
      assume a: "\<forall>v. fl_add ops0 v step0 \<le> v" and lt: "x0 < real w0"
      then have "f ops0 data0 w0 h0 step0 y0 (fl_add ops0 x0 step0)
                   (scanPixel data0 w0 h0 x0 y0 points0) = Some r0"
        using body by simp
      from ih [OF this] a have "\<not> fl_add ops0 x0 step0 < real w0" by blast
      moreover have "fl_add ops0 x0 step0 \<le> x0" using a by blast
      ultimately show False using lt by linarith
    qed
  next
    show "scanRow ops data w h step y x points = Some r" by (rule r)
  qed
  with assms show False by blast
qed

lemma getTextPoints_diverges:
  assumes "\<forall>v. fl_add ops v spacing \<le> v" and "0 < cv_width cv" and "0 < cv_height cv"
  shows "getTextPoints ops fill cv td text fontSize spacing = None"
proof -
  have "scanRows ops data (cv_width cv) (cv_height cv) spacing 0 [] = None" for data
    using assms by (subst scanRows.simps) (simp add: scanRow_diverges)
  then show ?thesis using assms by (simp add: getTextPoints_def Let_def)
qed

lemma scenePoint_inject:
  "scenePoint w h px py = scenePoint w h px' py' \<longleftrightarrow> px = px' \<and> py = py'"
  by (auto simp: scenePoint_def)

lemma alpha_index_in_range:
  assumes "0 \<le> px" and "px < int w" and "0 \<le> py" and "py < int h"
  shows "nat ((py * int w + px) * 4 + 3) < w * h * 4"
proof -
  define a where "a = py * int w"
  define b where "b = int h * int w"
  have "py + 1 \<le> int h" using assms(4) by simp
  then have "(py + 1) * int w \<le> int h * int w" by (intro mult_right_mono) simp_all
  then have ab: "a + int w \<le> b" by (simp add: algebra_simps a_def b_def)
  have a0: "0 \<le> a" using assms(3) by (simp add: a_def)
  have "(a + px) * 4 + 3 < b * 4" using ab assms(2) by presburger
  moreover have "0 \<le> (a + px) * 4 + 3" using a0 assms(1) by presburger
  ultimately have "nat ((a + px) * 4 + 3) < nat (b * 4)"
    unfolding zless_nat_conj by (intro conjI) simp_all
  also have "nat (b * 4) = w * h * 4"
    by (simp add: b_def nat_mult_distrib mult.commute)
  finally show ?thesis by (simp add: a_def)
qed






lemma drawnText_stamp_A:
  "drawnText (stampFill a) exampleCanvas exampleTextData ''A'' 200 = (\<lambda>i. 0)(961603 := a)"
  by (simp add: drawnText_def stampFill_def splitLines_def blankText_def isSpaceChar_def
        exampleCanvas_def exampleTextData_def Let_def)


lemma alphaAt_stamp_A:
  "alphaAt (drawnText (stampFill a) exampleCanvas exampleTextData ''A'' 200)
     (cv_width exampleCanvas) 400 300 = a"
  unfolding drawnText_stamp_A by (simp add: alphaAt_def exampleCanvas_def)


lemma scanPixel_in_range:
  assumes "0 \<le> x" and "x < real w" and "0 \<le> y" and "y < real h"
  shows "scanPixel data w h x y [] =
           (if 128 < alphaAt data w \<lfloor>x\<rfloor> \<lfloor>y\<rfloor> then [scenePoint w h \<lfloor>x\<rfloor> \<lfloor>y\<rfloor>] else [])"
proof -
  have "0 \<le> \<lfloor>x\<rfloor>" and "0 \<le> \<lfloor>y\<rfloor>" using assms(1,3) by simp_all
  moreover have "\<lfloor>x\<rfloor> < int w"
    using assms(2) by (simp add: floor_less_iff)
  moreover have "\<lfloor>y\<rfloor> < int h"
    using assms(4) by (simp add: floor_less_iff)
  ultimately show ?thesis by (simp add: scanPixel_def scenePoint_def Let_def)
qed

lemma scannedPoints_set:
  assumes "\<forall>x \<in> set xs. 0 \<le> x \<and> x < real w" and "\<forall>y \<in> set ys. 0 \<le> y \<and> y < real h"
  shows "set (scannedPoints data w h xs ys) =
           {scenePoint w h \<lfloor>x\<rfloor> \<lfloor>y\<rfloor> | x y.
              x \<in> set xs \<and> y \<in> set ys \<and> 128 < alphaAt data w \<lfloor>x\<rfloor> \<lfloor>y\<rfloor>}"
    (is "?lhs = ?rhs")
proof
  show "?lhs \<subseteq> ?rhs"
  proof
    fix p assume "p \<in> ?lhs"
    then have "\<exists>y \<in> set ys. \<exists>x \<in> set xs. p \<in> set (scanPixel data w h x y [])"
      by (simp add: scannedPoints_def)
    then obtain x y where x: "x \<in> set xs" and y: "y \<in> set ys"
      and p: "p \<in> set (scanPixel data w h x y [])"
      by blast
    have "scanPixel data w h x y [] =
            (if 128 < alphaAt data w \<lfloor>x\<rfloor> \<lfloor>y\<rfloor> then [scenePoint w h \<lfloor>x\<rfloor> \<lfloor>y\<rfloor>] else [])"
      using assms x y by (intro scanPixel_in_range) auto
    with p have "128 < alphaAt data w \<lfloor>x\<rfloor> \<lfloor>y\<rfloor>" and "p = scenePoint w h \<lfloor>x\<rfloor> \<lfloor>y\<rfloor>"
      by (auto split: if_splits)
    with x y show "p \<in> ?rhs" by blast
  qed
  show "?rhs \<subseteq> ?lhs"
  proof
    fix p assume "p \<in> ?rhs"
    then obtain x y where x: "x \<in> set xs" and y: "y \<in> set ys"
      and a: "128 < alphaAt data w \<lfloor>x\<rfloor> \<lfloor>y\<rfloor>" and p: "p = scenePoint w h \<lfloor>x\<rfloor> \<lfloor>y\<rfloor>"
      by blast
    have "scanPixel data w h x y [] =
            (if 128 < alphaAt data w \<lfloor>x\<rfloor> \<lfloor>y\<rfloor> then [scenePoint w h \<lfloor>x\<rfloor> \<lfloor>y\<rfloor>] else [])"
      using assms x y by (intro scanPixel_in_range) auto
    then have "p \<in> set (scanPixel data w h x y [])" using a p by simp
    then have "\<exists>y \<in> set ys. \<exists>x \<in> set xs. p \<in> set (scanPixel data w h x y [])"
      using x y by blast
    then show "p \<in> ?lhs" by (simp add: scannedPoints_def)
  qed
qed

lemma scannedPoints_member:
  assumes "\<forall>x \<in> set xs. 0 \<le> x \<and> x < real w" and "\<forall>y \<in> set ys. 0 \<le> y \<and> y < real h"
    and "x \<in> set xs" and "y \<in> set ys"
  shows "scenePoint w h \<lfloor>x\<rfloor> \<lfloor>y\<rfloor> \<in> set (scannedPoints data w h xs ys)
           \<longleftrightarrow> 128 < alphaAt data w \<lfloor>x\<rfloor> \<lfloor>y\<rfloor>"
proof
  assume "scenePoint w h \<lfloor>x\<rfloor> \<lfloor>y\<rfloor> \<in> set (scannedPoints data w h xs ys)"
  then have "\<exists>x' y'. scenePoint w h \<lfloor>x\<rfloor> \<lfloor>y\<rfloor> = scenePoint w h \<lfloor>x'\<rfloor> \<lfloor>y'\<rfloor> \<and>
               x' \<in> set xs \<and> y' \<in> set ys \<and> 128 < alphaAt data w \<lfloor>x'\<rfloor> \<lfloor>y'\<rfloor>"
    unfolding scannedPoints_set [OF assms(1,2)] mem_Collect_eq .
  then obtain x' y' :: real where a: "128 < alphaAt data w \<lfloor>x'\<rfloor> \<lfloor>y'\<rfloor>"
    and e: "scenePoint w h \<lfloor>x\<rfloor> \<lfloor>y\<rfloor> = scenePoint w h \<lfloor>x'\<rfloor> \<lfloor>y'\<rfloor>"
    by blast
  from e have "\<lfloor>x\<rfloor> = \<lfloor>x'\<rfloor>" and "\<lfloor>y\<rfloor> = \<lfloor>y'\<rfloor>" by (simp_all add: scenePoint_inject)
  then show "128 < alphaAt data w \<lfloor>x\<rfloor> \<lfloor>y\<rfloor>" using a by simp
next
  assume "128 < alphaAt data w \<lfloor>x\<rfloor> \<lfloor>y\<rfloor>"
  then show "scenePoint w h \<lfloor>x\<rfloor> \<lfloor>y\<rfloor> \<in> set (scannedPoints data w h xs ys)"
    unfolding scannedPoints_set [OF assms(1,2)] using assms(3,4) by blast
qed


lemma scannedPoints_faint:
  assumes "\<forall>k. data k \<le> 128"
  shows "scannedPoints data w h xs ys = []"
proof -
  have "scanPixel data w h x y [] = []" for x y
    using assms by (simp add: scanPixel_def alphaAt_def Let_def not_less)
  then show ?thesis by (simp add: scannedPoints_def)
qed

text \<open>
  When both loop counters advance, the scan returns what the loop body pushes at the
  counter values, and these values denote pixels of the canvas.
\<close>

lemma getTextPoints_scanned:
  assumes "0 < cv_width cv" and "0 < cv_height cv"
    and "advances ops spacing (real (cv_width cv))"
    and "advances ops spacing (real (cv_height cv))"
  shows "\<exists>xs ys.
           loopValues ops spacing (real (cv_width cv)) 0 = Some xs \<and>
           loopValues ops spacing (real (cv_height cv)) 0 = Some ys \<and>
           (\<forall>x \<in> set xs. 0 \<le> x \<and> x < real (cv_width cv)) \<and>
           (\<forall>y \<in> set ys. 0 \<le> y \<and> y < real (cv_height cv)) \<and>
           getTextPoints ops fill cv td text fontSize spacing
             = Some (Inr (scannedPoints (drawnText fill cv td text fontSize)
                            (cv_width cv) (cv_height cv) xs ys))"
proof -
  from loopValues_advances [OF assms(3)] obtain xs
    where xs: "loopValues ops spacing (real (cv_width cv)) 0 = Some xs"
      and xr: "\<forall>x \<in> set xs. 0 \<le> x \<and> x < real (cv_width cv)" by auto
  from loopValues_advances [OF assms(4)] obtain ys
    where ys: "loopValues ops spacing (real (cv_height cv)) 0 = Some ys"
      and yr: "\<forall>y \<in> set ys. 0 \<le> y \<and> y < real (cv_height cv)" by auto
  from getTextPoints_values [OF assms(1,2) xs ys] xs ys xr yr show ?thesis by blast
qed

text \<open>
  What the scan retains. On a canvas of positive width and height, with loop counters
  that advance, the scan returns, and a pixel that it reads (the pixel \<open>(\<lfloor>x\<rfloor>, \<lfloor>y\<rfloor>)\<close>
  at counter values \<open>x\<close> and \<open>y\<close>) is retained as a sample point if and only if its alpha
  byte is strictly greater than 128; every sample point is such a pixel.
\<close>

lemma getTextPoints_retains_iff_alpha_above_128:
  assumes "0 < cv_width cv" and "0 < cv_height cv"
    and "advances ops spacing (real (cv_width cv))"
    and "advances ops spacing (real (cv_height cv))"
  shows "\<exists>xs ys pts.
           loopValues ops spacing (real (cv_width cv)) 0 = Some xs \<and>
           loopValues ops spacing (real (cv_height cv)) 0 = Some ys \<and>
           getTextPoints ops fill cv td text fontSize spacing = Some (Inr pts) \<and>
           (\<forall>x \<in> set xs. \<forall>y \<in> set ys.
              (scenePoint (cv_width cv) (cv_height cv) \<lfloor>x\<rfloor> \<lfloor>y\<rfloor> \<in> set pts
               \<longleftrightarrow> 128 < alphaAt (drawnText fill cv td text fontSize) (cv_width cv) \<lfloor>x\<rfloor> \<lfloor>y\<rfloor>)) \<and>
           (\<forall>p \<in> set pts. \<exists>x \<in> set xs. \<exists>y \<in> set ys.
              p = scenePoint (cv_width cv) (cv_height cv) \<lfloor>x\<rfloor> \<lfloor>y\<rfloor> \<and>
              128 < alphaAt (drawnText fill cv td text fontSize) (cv_width cv) \<lfloor>x\<rfloor> \<lfloor>y\<rfloor>)"
proof -
  let ?data = "drawnText fill cv td text fontSize"
  from getTextPoints_scanned [OF assms] obtain xs ys
    where xs: "loopValues ops spacing (real (cv_width cv)) 0 = Some xs"
      and ys: "loopValues ops spacing (real (cv_height cv)) 0 = Some ys"
      and xr: "\<forall>x \<in> set xs. 0 \<le> x \<and> x < real (cv_width cv)"
      and yr: "\<forall>y \<in> set ys. 0 \<le> y \<and> y < real (cv_height cv)"
      and r: "getTextPoints ops fill cv td text fontSize spacing
                = Some (Inr (scannedPoints ?data (cv_width cv) (cv_height cv) xs ys))"
    by blast
  let ?pts = "scannedPoints ?data (cv_width cv) (cv_height cv) xs ys"
  have m: "\<forall>x \<in> set xs. \<forall>y \<in> set ys.
             (scenePoint (cv_width cv) (cv_height cv) \<lfloor>x\<rfloor> \<lfloor>y\<rfloor> \<in> set ?pts
              \<longleftrightarrow> 128 < alphaAt ?data (cv_width cv) \<lfloor>x\<rfloor> \<lfloor>y\<rfloor>)"
    using scannedPoints_member [OF xr yr] by blast
  have o: "\<forall>p \<in> set ?pts. \<exists>x \<in> set xs. \<exists>y \<in> set ys.
             p = scenePoint (cv_width cv) (cv_height cv) \<lfloor>x\<rfloor> \<lfloor>y\<rfloor> \<and>
             128 < alphaAt ?data (cv_width cv) \<lfloor>x\<rfloor> \<lfloor>y\<rfloor>"
    unfolding scannedPoints_set [OF xr yr] by blast
  from xs ys r m o show ?thesis by blast
qed


text \<open>
  The runs below use the canvas of 800 by 600 and the step 5 (the shape size 5 with the
  spacing 1 that the script starts with). Every counter value is then a multiple of 5
  below 800, which doubles add exactly, so the exact operations are the program's.
\<close>

lemma example_advances:
  "advances exactOps 5 (real (cv_width exampleCanvas))"
  "advances exactOps 5 (real (cv_height exampleCanvas))"
  by (simp_all add: advances_exact)

lemma example_canvas_positive: "0 < cv_width exampleCanvas" "0 < cv_height exampleCanvas"
  by (simp_all add: exampleCanvas_def)

lemma example_loopValues:
  "loopValues exactOps 5 (real (cv_width exampleCanvas)) 0
     = Some (map (\<lambda>i. 0 + real i * 5) [0..<160])"
  "loopValues exactOps 5 (real (cv_height exampleCanvas)) 0
     = Some (map (\<lambda>i. 0 + real i * 5) [0..<120])"
  by (simp_all add: loopValues_exact exampleCanvas_def)

lemma getTextPoints_faint:
  assumes "\<forall>k. drawnText fill exampleCanvas td text fontSize k \<le> 128"
  shows "getTextPoints exactOps fill exampleCanvas td text fontSize 5 = Some (Inr [])"
proof -
  from getTextPoints_scanned [OF example_canvas_positive example_advances,
      of fill td "text" fontSize]
  obtain xs ys where
    "getTextPoints exactOps fill exampleCanvas td text fontSize 5
       = Some (Inr (scannedPoints (drawnText fill exampleCanvas td text fontSize)
                      (cv_width exampleCanvas) (cv_height exampleCanvas) xs ys))"
    by blast
  then show ?thesis by (simp add: scannedPoints_faint [OF assms])
qed

text \<open>
  Claim C4, on a pixel with the alpha value 128. The text \<open>A\<close> is drawn by a rasteriser
  that inks the anchor pixel \<open>(400, 300)\<close> with alpha 128. The scan reads that pixel (400
  and 300 are values of its two counters), and 128 is more than half of the maximum 255,
  a coverage above 50 percent; the claim asks that the pixel be retained. It is not: the
  sampler returns no point.
\<close>

theorem getTextPoints_alpha_128_dropped:
  "(\<exists>xs ys. loopValues exactOps 5 (real (cv_width exampleCanvas)) 0 = Some xs \<and>
            loopValues exactOps 5 (real (cv_height exampleCanvas)) 0 = Some ys \<and>
            400 \<in> set xs \<and> 300 \<in> set ys) \<and>
   alphaAt (drawnText (stampFill 128) exampleCanvas exampleTextData ''A'' 200)
     (cv_width exampleCanvas) \<lfloor>400 :: real\<rfloor> \<lfloor>300 :: real\<rfloor> = 128 \<and>
   255 / 2 < real (unat (128::8 word)) \<and>
   getTextPoints exactOps (stampFill 128) exampleCanvas exampleTextData ''A'' 200 5
     = Some (Inr [])"
proof -
  have x: "(400::real) \<in> set (map (\<lambda>i. 0 + real i * 5) [0..<160])"
    unfolding set_map by (rule image_eqI [where x = 80]) simp_all
  have y: "(300::real) \<in> set (map (\<lambda>i. 0 + real i * 5) [0..<120])"
    unfolding set_map by (rule image_eqI [where x = 60]) simp_all
  have scanned: "\<exists>xs ys. loopValues exactOps 5 (real (cv_width exampleCanvas)) 0 = Some xs \<and>
            loopValues exactOps 5 (real (cv_height exampleCanvas)) 0 = Some ys \<and>
            400 \<in> set xs \<and> 300 \<in> set ys"
    using example_loopValues x y by blast
  have a: "alphaAt (drawnText (stampFill 128) exampleCanvas exampleTextData ''A'' 200)
             (cv_width exampleCanvas) \<lfloor>400 :: real\<rfloor> \<lfloor>300 :: real\<rfloor> = 128"
    using alphaAt_stamp_A [of 128] by simp
  have half: "255 / 2 < real (unat (128::8 word))" by simp
  have "\<forall>k. ((\<lambda>i. 0)(961603 := 128 :: 8 word)) k \<le> 128" by simp
  then have "\<forall>k. drawnText (stampFill 128) exampleCanvas exampleTextData ''A'' 200 k \<le> 128"
    unfolding drawnText_stamp_A .
  then have r: "getTextPoints exactOps (stampFill 128) exampleCanvas exampleTextData ''A'' 200 5
                  = Some (Inr [])"
    by (rule getTextPoints_faint)
  from scanned a half r show ?thesis by (intro conjI)
qed



section \<open>Properties of SVGShapeParser\<close>

text \<open>
  A \<open>rect\<close>, \<open>circle\<close>, \<open>ellipse\<close> or \<open>line\<close> element always yields path data, whatever
  attributes it has: the four conversions have no branch that returns \<open>null\<close>, and the
  template literal they return is never the empty string.
\<close>

lemma shapes_never_skipped:
  "truthy (rectToPath el)" "truthy (circleToPath el)"
  "truthy (ellipseToPath el)" "truthy (lineToPath el)"
  by (simp_all add: rectToPath_def circleToPath_def ellipseToPath_def lineToPath_def Let_def)

text \<open>
  A \<open>polygon\<close> or \<open>polyline\<close> element without a \<open>points\<close> attribute is skipped: it adds
  no path descriptor.
\<close>

lemma polygon_without_points_skipped:
  assumes "tagName el = ''polygon'' \<or> tagName el = ''polyline''"
    and "getAttribute el ''points'' = None"
  shows "pathsOfElement el parents = []"
  using assms
  by (auto simp: pathsOfElement_def elementToPath_def polygonToPath_def toLowerCase_def Let_def)

text \<open>A missing attribute parses to NaN.\<close>

lemma parseFloatAttr_missing: "parseFloatAttr None = NaN"
  by (simp add: parseFloatAttr_def parseFloat_def decimalPrefix_def splitSign_def isDigit_def
        digitVal_def exponentPart_def isSpaceChar_def Let_def)

text \<open>
  Claim C2, on a \<open>rect\<close> without the required \<open>width\<close>. The claim asks that the
  element be skipped. Parsing the document \<open>rectWithoutWidth\<close> does not fail, but the
  element is not skipped: the result holds a path descriptor for it, whose path data has
  NaN where the width enters (\<open>M0,0 LNaN,0 LNaN,10 L0,10 Z\<close>).
\<close>

theorem rect_without_width_not_skipped:
  "parse rectWithoutWidth =
     Inr \<lparr>pr_paths =
            [\<lparr>pi_d = [Lit ''M'', Val (Num 0), Lit '','', Val (Num 0),
                      Lit '' L'', Val NaN, Lit '','', Val (Num 0),
                      Lit '' L'', Val NaN, Lit '','', Val (Num 10),
                      Lit '' L'', Val (Num 0), Lit '','', Val (Num 10), Lit '' Z''],
              pi_transform = [], pi_fill = True, pi_stroke = True\<rparr>],
          pr_viewBox = \<lparr>pv_minX = Some (Num 0), pv_minY = Some (Num 0),
                        pv_width = Some (Num 100), pv_height = Some (Num 100)\<rparr>\<rparr>"
  by (simp add: rectWithoutWidth_def parse_def querySelector_def extractPaths_def
        querySelectorAll_def supportedElements_def pathsOfElement_def elementToPath_def
        rectToPath_def toLowerCase_def getAttribute_def parseFloatAttr_def parseFloat_def
        decimalPrefix_def splitSign_def isDigit_def digitVal_def digitsValue_def
        exponentPart_def isSpaceChar_def pair_def parseViewBox_def getComputedTransform_def
        Let_def)

end
